theory Spec2Isabelle
  imports Main "HOL-Library.Finite_Map" "HOL-Library.Sublist" "HOL-Library.AList"
begin

section \<open>The layered configuration resolver of lutris/config.py\<close>

text \<open>
  The development embeds the class \<^verbatim>\<open>LutrisConfig\<close> of \<^verbatim>\<open>src/lutris/config.py\<close>.
  Conventions of the embedding:
  \<^item> a Python dictionary is a finite map; a YAML value is a tree \<open>val\<close> of scalars and
    nested mappings with string keys (sequences, floats and keys that are not strings are
    outside the model);
  \<^item> every method that may raise returns \<open>error + result\<close>, \<open>Inl\<close> being the exception; the
    model does not describe the object after an exception;
  \<^item> durable storage and the logger are the two components of \<open>world\<close>, passed in and
    returned by every method that reads, writes or logs. A stored document belongs to a
    file, not to a path string: every operation on storage first resolves its path to the
    location of the file it names (\<open>locate\<close>), so two different paths can name the same
    file;
  \<^item> the model holds values, not object references. The shortcuts \<^verbatim>\<open>raw_config\<close> and
    \<^verbatim>\<open>raw_*_config\<close> are stored as the contents of the objects they refer to. One
    in-place effect of the source is not represented: \<^verbatim>\<open>merge_env\<close> updates the mapping
    object found at \<^verbatim>\<open>system_config["env"]\<close>, which can be the env mapping of a raw layer
    below the current level (or a default held by the options provider), so in the source
    that lower layer's in-memory env also receives the new keys. The cascaded views, the
    raw layer of the current level and durable storage are not affected by this, and the
    claims below are stated on these; nothing is claimed about the content of a section of
    a lower layer after a cascade beyond its presence.
\<close>

subsection \<open>Values, errors, log records\<close>

datatype ConfigLevel = GAME | RUNNER | SYSTEM

fun level_value :: "ConfigLevel \<Rightarrow> string" where
  "level_value GAME = ''game''"
| "level_value RUNNER = ''runner''"
| "level_value SYSTEM = ''system''"

datatype val =
    VNone
  | VBool bool
  | VInt int
  | VStr string
  | VDict "(string, val) fmap"

type_synonym dict = "(string, val) fmap"

datatype error =
    KeyError | TypeError | ValueError | AttributeError | FileNotFoundError | OtherError string

text \<open>One constructor for each logging call of the source, with the call's arguments.\<close>

datatype log_record =
    Debug_no_config_file "string option"
  | Debug_removed_config "string option"
  | Warning_cannot_save ConfigLevel
  | Debug_saving ConfigLevel "string option" "string option" string
  | Exception_default string error

text \<open>Python truthiness (\<^verbatim>\<open>if value\<close>, \<^verbatim>\<open>not value\<close>).\<close>

fun truthy :: "val \<Rightarrow> bool" where
  "truthy VNone = False"
| "truthy (VBool b) = b"
| "truthy (VInt n) = (n \<noteq> 0)"
| "truthy (VStr s) = (s \<noteq> [])"
| "truthy (VDict m) = (m \<noteq> fmempty)"

text \<open>Truthiness of an optional identifier: \<^verbatim>\<open>None\<close> and the empty string are falsy.\<close>

fun truthy_id :: "string option \<Rightarrow> bool" where
  "truthy_id None = False"
| "truthy_id (Some s) = (s \<noteq> [])"

definition bind_err :: "error + 'a \<Rightarrow> ('a \<Rightarrow> error + 'b) \<Rightarrow> error + 'b" where
  "bind_err m f = (case m of Inl e \<Rightarrow> Inl e | Inr x \<Rightarrow> f x)"

subsection \<open>Dictionary operations\<close>

text \<open>\<^verbatim>\<open>d.get(k)\<close>: the value, or \<^verbatim>\<open>None\<close> when the key is absent.\<close>

definition dict_get :: "dict \<Rightarrow> string \<Rightarrow> val" where
  "dict_get d k = (case fmlookup d k of None \<Rightarrow> VNone | Some v \<Rightarrow> v)"

text \<open>\<^verbatim>\<open>d[k]\<close> with a key that may be \<^verbatim>\<open>None\<close>: keys are strings, so \<^verbatim>\<open>d[None]\<close> raises.\<close>

definition dict_getitem :: "dict \<Rightarrow> string option \<Rightarrow> error + val" where
  "dict_getitem d k =
     (case k of
        None \<Rightarrow> Inl KeyError
      | Some k' \<Rightarrow> (case fmlookup d k' of None \<Rightarrow> Inl KeyError | Some v \<Rightarrow> Inr v))"

text \<open>
  \<^verbatim>\<open>d.update(other)\<close>. A mapping is merged key by key. \<^verbatim>\<open>None\<close>, a boolean and an
  integer are not iterable. A string is iterated character by character and every
  element must have length two, so only the empty string is accepted.
\<close>

fun py_update :: "dict \<Rightarrow> val \<Rightarrow> error + dict" where
  "py_update d (VDict m) = Inr (d ++\<^sub>f m)"
| "py_update d VNone = Inl TypeError"
| "py_update d (VBool b) = Inl TypeError"
| "py_update d (VInt n) = Inl TypeError"
| "py_update d (VStr s) = (if s = [] then Inr d else Inl ValueError)"

text \<open>\<^verbatim>\<open>k in x\<close>: key membership for a mapping, substring test for a string.\<close>

fun py_contains :: "string \<Rightarrow> val \<Rightarrow> error + bool" where
  "py_contains k (VDict m) = Inr (k |\<in>| fmdom m)"
| "py_contains k (VStr s) = Inr (sublist k s)"
| "py_contains k VNone = Inl TypeError"
| "py_contains k (VBool b) = Inl TypeError"
| "py_contains k (VInt n) = Inl TypeError"

text \<open>\<^verbatim>\<open>x[k]\<close> with a string key.\<close>

fun py_getitem :: "val \<Rightarrow> string \<Rightarrow> error + val" where
  "py_getitem (VDict m) k = (case fmlookup m k of None \<Rightarrow> Inl KeyError | Some v \<Rightarrow> Inr v)"
| "py_getitem VNone k = Inl TypeError"
| "py_getitem (VBool b) k = Inl TypeError"
| "py_getitem (VInt n) k = Inl TypeError"
| "py_getitem (VStr s) k = Inl TypeError"

text \<open>The comprehension \<^verbatim>\<open>{key: value for key, value in config.items() if value}\<close>.\<close>

definition strip_falsy :: "dict \<Rightarrow> dict" where
  "strip_falsy config = fmfilter (\<lambda>key. truthy (dict_get config key)) config"

subsection \<open>External collaborators\<close>

text \<open>
  An option descriptor is a dictionary with the key \<^verbatim>\<open>"option"\<close> and, optionally, the key
  \<^verbatim>\<open>"default"\<close>, whose value is a literal or a zero-argument callable; a callable returns
  a value or raises.
\<close>

datatype dflt = Literal val | Callable "unit \<Rightarrow> error + val"

record opt =
  opt_option :: string
  opt_default :: "dflt option"

text \<open>
  A runner class as \<^verbatim>\<open>import_runner\<close> returns it: the option lists read from the class
  and the ones read from an instance of it, by level
  (\<^verbatim>\<open>game_options\<close>, \<^verbatim>\<open>runner_options\<close>).
\<close>

record runner =
  class_options :: "ConfigLevel \<Rightarrow> opt list"
  instance_options :: "ConfigLevel \<Rightarrow> opt list"

text \<open>
  The modules \<^verbatim>\<open>settings\<close>, \<^verbatim>\<open>sysoptions\<close> and \<^verbatim>\<open>lutris.runners\<close> are not part of the
  sources at hand; what the resolver uses of them is a parameter, and so is the working
  directory of the process. \<^verbatim>\<open>import_runner\<close> returns \<open>None\<close> where the source raises
  \<^verbatim>\<open>InvalidRunnerError\<close>.
\<close>

record ext =
  CONFIG_DIR :: string
  RUNNERS_CONFIG_DIR :: string
  system_options :: "opt list"
  with_runner_overrides :: "string \<Rightarrow> opt list"
  import_runner :: "string \<Rightarrow> runner option"
  cwd :: "string list"

text \<open>
  \<^verbatim>\<open>os.path.join\<close> (POSIX, two components).
\<close>

definition path_join :: "string \<Rightarrow> string \<Rightarrow> string" where
  "path_join a b =
     (if b \<noteq> [] \<and> hd b = CHR ''/'' then b
      else if a = [] \<or> last a = CHR ''/'' then a @ b
      else a @ ''/'' @ b)"

text \<open>
  The file a path names. The operating system resolves a path component by component:
  it starts at the root for a path that begins with a slash and at the working directory
  (the field \<open>cwd\<close>, the names from the root down) otherwise; an empty component and
  \<^verbatim>\<open>.\<close> stay where they are, \<^verbatim>\<open>..\<close> moves to the parent directory, the root being its
  own parent, and any other component moves down to the entry of that name. The file
  system of the model has no symbolic or hard links and every directory that a path
  passes through exists, so a file is identified by its location, the list of names from
  the root down to it, and two paths name the same file exactly when they have the same
  location.
\<close>

type_synonym location = "string list"

fun split_path :: "string \<Rightarrow> string list" where
  "split_path [] = [[]]"
| "split_path (c # cs) =
     (if c = CHR ''/'' then [] # split_path cs
      else (case split_path cs of
              [] \<Rightarrow> [[c]]
            | s # ss \<Rightarrow> (c # s) # ss))"

definition walk :: "location \<Rightarrow> string \<Rightarrow> location" where
  "walk loc name =
     (if name = [] \<or> name = ''.'' then loc
      else if name = ''..'' then butlast loc
      else loc @ [name])"

definition locate :: "ext \<Rightarrow> string \<Rightarrow> location" where
  "locate x path =
     foldl walk (if path \<noteq> [] \<and> hd path = CHR ''/'' then [] else cwd x) (split_path path)"

text \<open>
  Durable storage maps a location to the document stored there; the logger is the list of
  records emitted so far.
\<close>

record world =
  files :: "location \<rightharpoonup> dict"
  log_records :: "log_record list"

definition emit :: "log_record \<Rightarrow> world \<Rightarrow> world" where
  "emit r w = w\<lparr>log_records := log_records w @ [r]\<rparr>"

text \<open>
  Modelled from the spec: \<^verbatim>\<open>read_yaml_from_file\<close>, \<^verbatim>\<open>write_yaml_to_file\<close> and
  \<^verbatim>\<open>path_exists\<close> (\<^verbatim>\<open>lutris.util.yaml\<close>, \<^verbatim>\<open>lutris.util.system\<close>) are missing from the
  sources. They act on the file that the path names. A file that does not exist reads as
  the empty mapping, as does the absent path \<^verbatim>\<open>None\<close> that \<^verbatim>\<open>get_config\<close> passes for a
  missing identifier; a document that was written is read back unchanged; no file exists
  at the path \<^verbatim>\<open>None\<close>.
\<close>

definition read_yaml_from_file :: "ext \<Rightarrow> world \<Rightarrow> string option \<Rightarrow> dict" where
  "read_yaml_from_file x w path =
     (case path of
        None \<Rightarrow> fmempty
      | Some p \<Rightarrow> (case files w (locate x p) of None \<Rightarrow> fmempty | Some d \<Rightarrow> d))"

definition write_yaml_to_file :: "ext \<Rightarrow> dict \<Rightarrow> string \<Rightarrow> world \<Rightarrow> world" where
  "write_yaml_to_file x config path w = w\<lparr>files := (files w)(locate x path \<mapsto> config)\<rparr>"

definition path_exists :: "ext \<Rightarrow> world \<Rightarrow> string option \<Rightarrow> bool" where
  "path_exists x w path =
     (case path of None \<Rightarrow> False | Some p \<Rightarrow> files w (locate x p) \<noteq> None)"

text \<open>
  \<^verbatim>\<open>os.remove\<close>: the file that the path names is deleted; when there is no such file
  the call raises \<^verbatim>\<open>FileNotFoundError\<close>.
\<close>

definition os_remove :: "ext \<Rightarrow> string \<Rightarrow> world \<Rightarrow> error + world" where
  "os_remove x path w =
     (if files w (locate x path) = None then Inl FileNotFoundError
      else Inr (w\<lparr>files := (files w)(locate x path := None)\<rparr>))"

subsection \<open>The resolver object\<close>

record LutrisConfig =
  game_config_id :: "string option"
  runner_slug :: "string option"
  level :: ConfigLevel
  game_level :: dict
  runner_level :: dict
  system_level :: dict
  game_config :: dict
  runner_config :: dict
  system_config :: dict
  raw_game_config :: val
  raw_runner_config :: val
  raw_system_config :: val
  raw_config :: dict

definition system_config_path :: "ext \<Rightarrow> LutrisConfig \<Rightarrow> string option" where
  "system_config_path x self = Some (path_join (CONFIG_DIR x) ''system.yml'')"

definition runner_config_path :: "ext \<Rightarrow> LutrisConfig \<Rightarrow> string option" where
  "runner_config_path x self =
     (case runner_slug self of
        None \<Rightarrow> None
      | Some slug \<Rightarrow>
          if slug = [] then None
          else Some (path_join (RUNNERS_CONFIG_DIR x) (slug @ ''.yml'')))"

definition game_config_path :: "ext \<Rightarrow> LutrisConfig \<Rightarrow> string option" where
  "game_config_path x self =
     (case game_config_id self of
        None \<Rightarrow> None
      | Some gid \<Rightarrow>
          if gid = [] then None
          else Some (path_join (CONFIG_DIR x) (''games/'' @ gid @ ''.yml'')))"

text \<open>
  \<^verbatim>\<open>get_config\<close>. The final \<^verbatim>\<open>else: raise ValueError\<close> of the source is unreachable for a
  member of the enumeration.
\<close>

fun get_config :: "ext \<Rightarrow> world \<Rightarrow> LutrisConfig \<Rightarrow> ConfigLevel \<Rightarrow> dict" where
  "get_config x w self GAME = read_yaml_from_file x w (game_config_path x self)"
| "get_config x w self RUNNER = read_yaml_from_file x w (runner_config_path x self)"
| "get_config x w self SYSTEM = read_yaml_from_file x w (system_config_path x self)"

subsection \<open>Defaults\<close>

text \<open>
  \<^verbatim>\<open>options_as_dict\<close>. The result is a dictionary from option name to descriptor, kept
  here as an association list in insertion order (\<open>AList.update\<close> overwrites an existing
  key in place and appends a new one), since \<^verbatim>\<open>get_defaults\<close> iterates over it.
\<close>

definition options_as_dict :: "ext \<Rightarrow> LutrisConfig \<Rightarrow> ConfigLevel \<Rightarrow> (string \<times> opt) list" where
  "options_as_dict x self options_type =
     (let options =
        (if options_type = SYSTEM then
           (case runner_slug self of
              None \<Rightarrow> system_options x
            | Some slug \<Rightarrow> if slug = [] then system_options x else with_runner_overrides x slug)
         else
           (case runner_slug self of
              None \<Rightarrow> []
            | Some slug \<Rightarrow>
                if slug = [] then []
                else (case import_runner x slug of
                        None \<Rightarrow> []
                      | Some runner \<Rightarrow>
                          if class_options runner options_type = []
                          then instance_options runner options_type
                          else class_options runner options_type)))
      in foldl (\<lambda>d opt. AList.update (opt_option opt) opt d) [] options)"

text \<open>The loop of \<^verbatim>\<open>get_defaults\<close>, with the defaults and the records logged so far.\<close>

fun get_defaults_loop ::
  "(string \<times> opt) list \<Rightarrow> dict \<times> log_record list \<Rightarrow> dict \<times> log_record list" where
  "get_defaults_loop [] acc = acc"
| "get_defaults_loop ((option, params) # rest) (defaults, lg) =
     (case opt_default params of
        None \<Rightarrow> get_defaults_loop rest (defaults, lg)
      | Some (Literal v) \<Rightarrow> get_defaults_loop rest (fmupd option v defaults, lg)
      | Some (Callable f) \<Rightarrow>
          (case f () of
             Inl ex \<Rightarrow> get_defaults_loop rest (defaults, lg @ [Exception_default option ex])
           | Inr v \<Rightarrow> get_defaults_loop rest (fmupd option v defaults, lg)))"

definition get_defaults ::
  "ext \<Rightarrow> LutrisConfig \<Rightarrow> ConfigLevel \<Rightarrow> dict \<times> log_record list" where
  "get_defaults x self options_type =
     get_defaults_loop (options_as_dict x self options_type) (fmempty, [])"

subsection \<open>Cascading\<close>

text \<open>\<^verbatim>\<open>if d.get(k) is None: d[k] = {}\<close>.\<close>

definition ensure_section :: "string \<Rightarrow> dict \<Rightarrow> dict" where
  "ensure_section k d = (if dict_get d k = VNone then fmupd k (VDict fmempty) d else d)"

text \<open>
  \<^verbatim>\<open>merge_env\<close>. \<^verbatim>\<open>existing_env.update\<close> is an attribute error unless the existing
  entry is a mapping.
\<close>

definition merge_env :: "val \<Rightarrow> LutrisConfig \<Rightarrow> error + LutrisConfig" where
  "merge_env new_env self =
     (if \<not> truthy new_env then Inr self
      else
        (case (case fmlookup (system_config self) ''env'' of
                 None \<Rightarrow> VDict fmempty
               | Some e \<Rightarrow> e) of
           VDict existing_env \<Rightarrow>
             bind_err (py_update existing_env new_env)
               (\<lambda>merged. Inr (self\<lparr>system_config :=
                                      fmupd ''env'' (VDict merged) (system_config self)\<rparr>))
         | _ \<Rightarrow> Inl AttributeError))"

definition merge_to_system_config :: "val \<Rightarrow> LutrisConfig \<Rightarrow> error + LutrisConfig" where
  "merge_to_system_config config self =
     (if \<not> truthy config then Inr self
      else
        bind_err (py_contains ''env'' config) (\<lambda>has_env.
        bind_err (if has_env
                  then bind_err (py_getitem config ''env'') (\<lambda>new_env. merge_env new_env self)
                  else Inr self) (\<lambda>self.
        bind_err (py_update (system_config self) config) (\<lambda>merged.
        Inr (self\<lparr>system_config := merged\<rparr>)))))"

text \<open>
  \<^verbatim>\<open>update_cascaded_config\<close>, one definition for each of its three blocks
  (lines 175-179, 181-189 and 191-202 of the source).
\<close>

definition cascade_system :: "ext \<Rightarrow> world \<times> LutrisConfig \<Rightarrow> error + world \<times> LutrisConfig" where
  "cascade_system x = (\<lambda>(w, self).
     let self = self\<lparr>system_level := ensure_section (level_value SYSTEM) (system_level self)\<rparr>;
         self = self\<lparr>system_config := fmempty\<rparr>;
         (defaults, lg) = get_defaults x self SYSTEM;
         w = w\<lparr>log_records := log_records w @ lg\<rparr>;
         self = self\<lparr>system_config := system_config self ++\<^sub>f defaults\<rparr>
     in bind_err (py_update (system_config self) (dict_get (system_level self) (level_value SYSTEM)))
          (\<lambda>merged. Inr (w, self\<lparr>system_config := merged\<rparr>)))"

definition cascade_runner :: "ext \<Rightarrow> world \<times> LutrisConfig \<Rightarrow> error + world \<times> LutrisConfig" where
  "cascade_runner x = (\<lambda>(w, self).
     case runner_slug self of
       None \<Rightarrow> Inr (w, self)
     | Some slug \<Rightarrow>
         if \<not> (level self \<in> {RUNNER, GAME} \<and> slug \<noteq> []) then Inr (w, self)
         else
           let self = self\<lparr>runner_level := ensure_section slug (runner_level self)\<rparr>;
               self = self\<lparr>runner_level := ensure_section (level_value SYSTEM) (runner_level self)\<rparr>;
               self = self\<lparr>runner_config := fmempty\<rparr>;
               (defaults, lg) = get_defaults x self RUNNER;
               w = w\<lparr>log_records := log_records w @ lg\<rparr>;
               self = self\<lparr>runner_config := runner_config self ++\<^sub>f defaults\<rparr>
           in bind_err (py_update (runner_config self) (dict_get (runner_level self) slug))
                (\<lambda>merged.
                   bind_err (merge_to_system_config
                               (dict_get (runner_level self) (level_value SYSTEM))
                               (self\<lparr>runner_config := merged\<rparr>))
                     (\<lambda>self. Inr (w, self))))"

definition cascade_game :: "ext \<Rightarrow> world \<times> LutrisConfig \<Rightarrow> error + world \<times> LutrisConfig" where
  "cascade_game x = (\<lambda>(w, self).
     case runner_slug self of
       None \<Rightarrow> Inr (w, self)
     | Some slug \<Rightarrow>
         if \<not> (level self = GAME \<and> slug \<noteq> []) then Inr (w, self)
         else
           let self = self\<lparr>game_level := ensure_section (level_value GAME) (game_level self)\<rparr>;
               self = self\<lparr>game_level := ensure_section slug (game_level self)\<rparr>;
               self = self\<lparr>game_level := ensure_section (level_value SYSTEM) (game_level self)\<rparr>;
               self = self\<lparr>game_config := fmempty\<rparr>;
               (defaults, lg) = get_defaults x self GAME;
               w = w\<lparr>log_records := log_records w @ lg\<rparr>;
               self = self\<lparr>game_config := game_config self ++\<^sub>f defaults\<rparr>
           in bind_err (py_update (game_config self) (dict_get (game_level self) (level_value GAME)))
                (\<lambda>merged_game.
                   bind_err (py_update (runner_config self) (dict_get (game_level self) slug))
                     (\<lambda>merged_runner.
                        bind_err (merge_to_system_config
                                    (dict_get (game_level self) (level_value SYSTEM))
                                    (self\<lparr>game_config := merged_game,
                                          runner_config := merged_runner\<rparr>))
                          (\<lambda>self. Inr (w, self)))))"

definition update_cascaded_config ::
  "ext \<Rightarrow> world \<Rightarrow> LutrisConfig \<Rightarrow> error + world \<times> LutrisConfig" where
  "update_cascaded_config x w self =
     bind_err (cascade_system x (w, self)) (\<lambda>st.
     bind_err (cascade_runner x st) (\<lambda>st.
     cascade_game x st))"

text \<open>The raw layer of a level, as \<^verbatim>\<open>update_raw_config\<close> and \<^verbatim>\<open>save\<close> select it.\<close>

fun level_dict :: "LutrisConfig \<Rightarrow> ConfigLevel \<Rightarrow> dict" where
  "level_dict self GAME = game_level self"
| "level_dict self RUNNER = runner_level self"
| "level_dict self SYSTEM = system_level self"

definition update_raw_config :: "LutrisConfig \<Rightarrow> error + LutrisConfig" where
  "update_raw_config self =
     (let raw_config = level_dict self (level self) in
      bind_err (dict_getitem raw_config (Some (level_value SYSTEM))) (\<lambda>v.
      let self = self\<lparr>raw_system_config := v\<rparr> in
      bind_err (if level self \<in> {RUNNER, GAME}
                then bind_err (dict_getitem raw_config (runner_slug self))
                       (\<lambda>v. Inr (self\<lparr>raw_runner_config := v\<rparr>))
                else Inr self) (\<lambda>self.
      bind_err (if level self = GAME
                then bind_err (dict_getitem raw_config (Some (level_value GAME)))
                       (\<lambda>v. Inr (self\<lparr>raw_game_config := v\<rparr>))
                else Inr self) (\<lambda>self.
      Inr (self\<lparr>raw_config := raw_config\<rparr>)))))"

subsection \<open>Loading, saving, removing\<close>

text \<open>
  \<^verbatim>\<open>initialize_config\<close>: each raw layer is updated (not replaced) with the document read
  for its level, in the order game, runner, system.
\<close>

definition initialize_config ::
  "ext \<Rightarrow> world \<Rightarrow> LutrisConfig \<Rightarrow> error + world \<times> LutrisConfig" where
  "initialize_config x w self =
     (let self = self\<lparr>game_level := game_level self ++\<^sub>f get_config x w self GAME\<rparr>;
          self = self\<lparr>runner_level := runner_level self ++\<^sub>f get_config x w self RUNNER\<rparr>;
          self = self\<lparr>system_level := system_level self ++\<^sub>f get_config x w self SYSTEM\<rparr>
      in bind_err (update_cascaded_config x w self) (\<lambda>(w, self).
         bind_err (update_raw_config self) (\<lambda>self. Inr (w, self))))"

text \<open>The constructor \<^verbatim>\<open>__init__\<close>.\<close>

definition LutrisConfig_init ::
  "ext \<Rightarrow> world \<Rightarrow> string option \<Rightarrow> string option \<Rightarrow> ConfigLevel option
     \<Rightarrow> error + world \<times> LutrisConfig" where
  "LutrisConfig_init x w runner_slug' game_config_id' level' =
     initialize_config x w
       \<lparr>game_config_id = game_config_id',
        runner_slug = runner_slug',
        level = (case level' of
                   Some l \<Rightarrow> l
                 | None \<Rightarrow> if truthy_id game_config_id' then GAME
                           else if truthy_id runner_slug' then RUNNER
                           else SYSTEM),
        game_level = fmempty, runner_level = fmempty, system_level = fmempty,
        game_config = fmempty, runner_config = fmempty, system_config = fmempty,
        raw_game_config = VDict fmempty, raw_runner_config = VDict fmempty,
        raw_system_config = VDict fmempty,
        raw_config = fmempty\<rparr>"

text \<open>
  \<^verbatim>\<open>remove\<close> (the name \<open>remove\<close> is taken by a constant of the library).
  \<^verbatim>\<open>os.remove(None)\<close> is a type error; \<^verbatim>\<open>path_exists\<close> is false for \<^verbatim>\<open>None\<close>, so that
  branch is not reached.
\<close>

definition remove_config :: "ext \<Rightarrow> world \<Rightarrow> LutrisConfig \<Rightarrow> error + world" where
  "remove_config x w self =
     (if \<not> path_exists x w (game_config_path x self)
      then Inr (emit (Debug_no_config_file (game_config_path x self)) w)
      else (case game_config_path x self of
              None \<Rightarrow> Inl TypeError
            | Some path \<Rightarrow>
                bind_err (os_remove x path w) (\<lambda>w.
                Inr (emit (Debug_removed_config (game_config_path x self)) w))))"

text \<open>\<^verbatim>\<open>config_path\<close> as \<^verbatim>\<open>save\<close> selects it.\<close>

fun level_path :: "ext \<Rightarrow> LutrisConfig \<Rightarrow> ConfigLevel \<Rightarrow> string option" where
  "level_path x self SYSTEM = system_config_path x self"
| "level_path x self RUNNER = runner_config_path x self"
| "level_path x self GAME = game_config_path x self"

definition save :: "ext \<Rightarrow> world \<Rightarrow> LutrisConfig \<Rightarrow> error + world \<times> LutrisConfig" where
  "save x w self =
     (let config = level_dict self (level self);
          config_path = level_path x self (level self)
      in case config_path of
           None \<Rightarrow> Inr (emit (Warning_cannot_save (level self)) w, self)
         | Some path \<Rightarrow>
             let config = strip_falsy config;
                 w = emit (Debug_saving (level self) (game_config_id self) (runner_slug self) path) w;
                 w = write_yaml_to_file x config path w
             in initialize_config x w self)"

text \<open>
  The mapping that \<^verbatim>\<open>d.update(v)\<close> adds when it succeeds: \<open>v\<close> itself when it is a mapping,
  nothing for the empty string. Used in statements only.
\<close>

definition as_dict :: "val \<Rightarrow> dict" where
  "as_dict v = (case v of VDict m \<Rightarrow> m | _ \<Rightarrow> fmempty)"

subsection \<open>Concrete inputs\<close>

text \<open>
  A provider with two system options, one with a literal default and one whose default
  computation raises, and one known runner, \<open>wine\<close>.
\<close>

definition example_system_options :: "opt list" where
  "example_system_options =
     [\<lparr>opt_option = ''vsync'', opt_default = Some (Literal (VBool True))\<rparr>,
      \<lparr>opt_option = ''locale'', opt_default = Some (Callable (\<lambda>_. Inl (OtherError ''no locale'')))\<rparr>,
      \<lparr>opt_option = ''prefix'', opt_default = Some (Callable (\<lambda>_. Inr (VStr ''/usr'')))\<rparr>,
      \<lparr>opt_option = ''terminal'', opt_default = None\<rparr>]"

definition example_wine :: runner where
  "example_wine =
     \<lparr>class_options = (\<lambda>l. case l of
          RUNNER \<Rightarrow> [\<lparr>opt_option = ''version'', opt_default = Some (Literal (VStr ''ge''))\<rparr>]
        | GAME \<Rightarrow> [\<lparr>opt_option = ''exe'', opt_default = None\<rparr>]
        | SYSTEM \<Rightarrow> []),
      instance_options = (\<lambda>l. [])\<rparr>"

definition example_ext :: ext where
  "example_ext =
     \<lparr>CONFIG_DIR = ''/cfg'',
      RUNNERS_CONFIG_DIR = ''/cfg/runners'',
      system_options = example_system_options,
      with_runner_overrides = (\<lambda>slug. example_system_options),
      import_runner = (\<lambda>slug. if slug = ''wine'' then Some example_wine else None),
      cwd = [''home'', ''user'']\<rparr>"

definition empty_world :: world where
  "empty_world = \<lparr>files = Map.empty, log_records = []\<rparr>"

text \<open>
  A Game-level resolver for the runner \<open>wine\<close> with no game-config identifier, in the
  state the constructor leaves it in on empty storage.
\<close>

definition example_game_without_id :: LutrisConfig where
  "example_game_without_id =
     \<lparr>game_config_id = None,
      runner_slug = Some ''wine'',
      level = GAME,
      game_level = fmupd ''system'' (VDict fmempty)
                     (fmupd ''wine'' (VDict fmempty) (fmupd ''game'' (VDict fmempty) fmempty)),
      runner_level = fmupd ''system'' (VDict fmempty) (fmupd ''wine'' (VDict fmempty) fmempty),
      system_level = fmupd ''system'' (VDict fmempty) fmempty,
      game_config = fmempty,
      runner_config = fmupd ''version'' (VStr ''ge'') fmempty,
      system_config = fmupd ''prefix'' (VStr ''/usr'') (fmupd ''vsync'' (VBool True) fmempty),
      raw_game_config = VDict fmempty,
      raw_runner_config = VDict fmempty,
      raw_system_config = VDict fmempty,
      raw_config = fmupd ''system'' (VDict fmempty)
                     (fmupd ''wine'' (VDict fmempty) (fmupd ''game'' (VDict fmempty) fmempty))\<rparr>"

text \<open>
  Storage holding a system document and the document of the game \<open>quake-1\<close>; the Game-level
  resolver that the constructor returns for that game and the runner \<open>wine\<close> on this
  storage; a resolver with another game-config identifier, for which nothing is stored.
\<close>

definition example_world :: world where
  "example_world =
     \<lparr>files = [[''cfg'', ''games'', ''quake-1.yml''] \<mapsto> fmupd ''game'' (VDict (fmupd ''exe'' (VStr ''q'') fmempty)) fmempty,
               [''cfg'', ''system.yml''] \<mapsto> fmupd ''system'' (VDict (fmupd ''vsync'' (VBool False) fmempty)) fmempty],
      log_records = []\<rparr>"

definition example_quake :: LutrisConfig where
  "example_quake =
     \<lparr>game_config_id = Some ''quake-1'',
      runner_slug = Some ''wine'',
      level = GAME,
      game_level = fmupd ''system'' (VDict fmempty)
                     (fmupd ''wine'' (VDict fmempty)
                        (fmupd ''game'' (VDict (fmupd ''exe'' (VStr ''q'') fmempty)) fmempty)),
      runner_level = fmupd ''system'' (VDict fmempty) (fmupd ''wine'' (VDict fmempty) fmempty),
      system_level = fmupd ''system'' (VDict (fmupd ''vsync'' (VBool False) fmempty)) fmempty,
      game_config = fmupd ''exe'' (VStr ''q'') fmempty,
      runner_config = fmupd ''version'' (VStr ''ge'') fmempty,
      system_config = fmupd ''vsync'' (VBool False)
                        (fmupd ''prefix'' (VStr ''/usr'') (fmupd ''vsync'' (VBool True) fmempty)),
      raw_game_config = VDict (fmupd ''exe'' (VStr ''q'') fmempty),
      raw_runner_config = VDict fmempty,
      raw_system_config = VDict fmempty,
      raw_config = fmupd ''system'' (VDict fmempty)
                     (fmupd ''wine'' (VDict fmempty)
                        (fmupd ''game'' (VDict (fmupd ''exe'' (VStr ''q'') fmempty)) fmempty))\<rparr>"

definition example_doom :: LutrisConfig where
  "example_doom = example_quake\<lparr>game_config_id := Some ''doom-2''\<rparr>"

text \<open>
  Storage for the env scenario: the system resource sets env to \<open>{A: 1}\<close>, the resource of
  the runner \<open>wine\<close> sets env to \<open>{B: 2}\<close>. Storage for the override scenario: the game
  resource and the runner resource both set the option \<open>version\<close> of the runner section.
\<close>

definition env_world :: world where
  "env_world =
     \<lparr>files = [[''cfg'', ''system.yml''] \<mapsto>
                 fmupd ''system'' (VDict (fmupd ''env'' (VDict (fmupd ''A'' (VStr ''1'') fmempty)) fmempty)) fmempty,
               [''cfg'', ''runners'', ''wine.yml''] \<mapsto>
                 fmupd ''system'' (VDict (fmupd ''env'' (VDict (fmupd ''B'' (VStr ''2'') fmempty)) fmempty)) fmempty],
      log_records = []\<rparr>"

definition override_world :: world where
  "override_world =
     \<lparr>files = [[''cfg'', ''games'', ''quake-1.yml''] \<mapsto>
                 fmupd ''wine'' (VDict (fmupd ''version'' (VStr ''game-build'') fmempty)) fmempty,
               [''cfg'', ''runners'', ''wine.yml''] \<mapsto>
                 fmupd ''wine'' (VDict (fmupd ''version'' (VStr ''runner-build'') fmempty)) fmempty],
      log_records = []\<rparr>"

text \<open>
  The resolver after the first step of \<^verbatim>\<open>initialize_config\<close>, the update of the three raw
  layers from storage. Used in statements only.
\<close>

definition loaded :: "ext \<Rightarrow> world \<Rightarrow> LutrisConfig \<Rightarrow> LutrisConfig" where
  "loaded x w self =
     self\<lparr>game_level := game_level self ++\<^sub>f get_config x w self GAME,
          runner_level := runner_level self ++\<^sub>f get_config x w self RUNNER,
          system_level := system_level self ++\<^sub>f get_config x w self SYSTEM\<rparr>"

text \<open>
  The sections of the raw layer of level \<open>t\<close> that \<^verbatim>\<open>update_cascaded_config\<close> consults, for
  a resolver \<open>self\<close>. Used in statements only.
\<close>

fun consulted :: "LutrisConfig \<Rightarrow> ConfigLevel \<Rightarrow> string \<Rightarrow> bool" where
  "consulted self SYSTEM k = (k = ''system'')"
| "consulted self RUNNER k =
     (level self \<noteq> SYSTEM \<and> truthy_id (runner_slug self) \<and>
      (k = ''system'' \<or> Some k = runner_slug self))"
| "consulted self GAME k =
     (level self = GAME \<and> truthy_id (runner_slug self) \<and>
      (k = ''system'' \<or> Some k = runner_slug self \<or> k = ''game''))"

text \<open>
  The resolver \<open>example_quake\<close> after the caller has set the option \<open>exe\<close> of its raw game
  section to \<open>q2\<close>; a System-level resolver in the state the constructor leaves it in on
  empty storage, and the same after the caller has set the option \<open>vsync\<close> of its raw
  system section to \<open>False\<close>; the object a Game-level constructor call for the runner
  \<open>wine\<close> starts from.
\<close>

definition example_quake_edited :: LutrisConfig where
  "example_quake_edited =
     example_quake\<lparr>
       game_level := fmupd ''game'' (VDict (fmupd ''exe'' (VStr ''q2'') fmempty))
                       (game_level example_quake),
       raw_game_config := VDict (fmupd ''exe'' (VStr ''q2'') fmempty),
       raw_config := fmupd ''game'' (VDict (fmupd ''exe'' (VStr ''q2'') fmempty))
                       (game_level example_quake)\<rparr>"

definition example_system :: LutrisConfig where
  "example_system =
     \<lparr>game_config_id = None,
      runner_slug = None,
      level = SYSTEM,
      game_level = fmempty,
      runner_level = fmempty,
      system_level = fmupd ''system'' (VDict fmempty) fmempty,
      game_config = fmempty,
      runner_config = fmempty,
      system_config = fmupd ''prefix'' (VStr ''/usr'') (fmupd ''vsync'' (VBool True) fmempty),
      raw_game_config = VDict fmempty,
      raw_runner_config = VDict fmempty,
      raw_system_config = VDict fmempty,
      raw_config = fmupd ''system'' (VDict fmempty) fmempty\<rparr>"

definition example_system_edited :: LutrisConfig where
  "example_system_edited =
     example_system\<lparr>
       system_level := fmupd ''system'' (VDict (fmupd ''vsync'' (VBool False) fmempty)) fmempty,
       raw_system_config := VDict (fmupd ''vsync'' (VBool False) fmempty),
       raw_config := fmupd ''system'' (VDict (fmupd ''vsync'' (VBool False) fmempty)) fmempty\<rparr>"

definition blank_wine_game :: LutrisConfig where
  "blank_wine_game =
     \<lparr>game_config_id = None, runner_slug = Some ''wine'', level = GAME,
      game_level = fmempty, runner_level = fmempty, system_level = fmempty,
      game_config = fmempty, runner_config = fmempty, system_config = fmempty,
      raw_game_config = VDict fmempty, raw_runner_config = VDict fmempty,
      raw_system_config = VDict fmempty, raw_config = fmempty\<rparr>"

text \<open>
  Storage in which the document of the game \<open>quake-1\<close> has, beside its game section, an
  empty section of another runner, \<open>dosbox\<close>; the Game-level resolver that the constructor
  returns for that game and the runner \<open>wine\<close> on this storage.
\<close>

definition legacy_world :: world where
  "legacy_world =
     \<lparr>files = [[''cfg'', ''games'', ''quake-1.yml''] \<mapsto>
                 fmupd ''game'' (VDict (fmupd ''exe'' (VStr ''q'') fmempty))
                   (fmupd ''dosbox'' (VDict fmempty) fmempty),
               [''cfg'', ''system.yml''] \<mapsto> fmupd ''system'' (VDict (fmupd ''vsync'' (VBool False) fmempty)) fmempty],
      log_records = []\<rparr>"

definition example_legacy :: LutrisConfig where
  "example_legacy =
     example_quake\<lparr>
       game_level := fmupd ''system'' (VDict fmempty)
                       (fmupd ''wine'' (VDict fmempty)
                          (fmupd ''game'' (VDict (fmupd ''exe'' (VStr ''q'') fmempty))
                             (fmupd ''dosbox'' (VDict fmempty) fmempty))),
       raw_config := fmupd ''system'' (VDict fmempty)
                       (fmupd ''wine'' (VDict fmempty)
                          (fmupd ''game'' (VDict (fmupd ''exe'' (VStr ''q'') fmempty))
                             (fmupd ''dosbox'' (VDict fmempty) fmempty)))\<rparr>"

text \<open>
  An identifier that, when given, contains no path separator. Used in statements only.
\<close>

definition plain_id :: "string option \<Rightarrow> bool" where
  "plain_id i = (case i of None \<Rightarrow> True | Some s \<Rightarrow> CHR ''/'' \<notin> set s)"

text \<open>
  The key of the section of a kind in a raw layer, and the cascaded view of that kind.
  Used in statements only.
\<close>

fun section_key :: "LutrisConfig \<Rightarrow> ConfigLevel \<Rightarrow> string option" where
  "section_key self SYSTEM = Some ''system''"
| "section_key self RUNNER = runner_slug self"
| "section_key self GAME = Some ''game''"

fun cascaded_view :: "LutrisConfig \<Rightarrow> ConfigLevel \<Rightarrow> dict" where
  "cascaded_view self SYSTEM = system_config self"
| "cascaded_view self RUNNER = runner_config self"
| "cascaded_view self GAME = game_config self"

section \<open>Auxiliary facts\<close>

subsection \<open>Evaluation and the error monad\<close>

lemma fmupd_neq_fmempty [simp]: "fmupd k v m \<noteq> fmempty"
proof
  assume "fmupd k v m = fmempty"
  then have "fmlookup (fmupd k v m) k = fmlookup fmempty k" by simp
  then show False by simp
qed

lemmas eval_defs = LutrisConfig_init_def initialize_config_def update_cascaded_config_def
  cascade_system_def cascade_runner_def cascade_game_def update_raw_config_def
  merge_to_system_config_def merge_env_def ensure_section_def dict_get_def dict_getitem_def
  read_yaml_from_file_def locate_def walk_def system_config_path_def runner_config_path_def game_config_path_def
  path_join_def get_defaults_def options_as_dict_def example_ext_def example_wine_def
  example_system_options_def Let_def

lemmas example_defs = example_quake_def example_game_without_id_def example_world_def
  empty_world_def override_world_def env_world_def example_system_def

lemma bind_err_simps [simp]:
  "bind_err (Inl e) f = Inl e"
  "bind_err (Inr a) f = f a"
  by (simp_all add: bind_err_def)

lemma bind_err_eq_Inr: "bind_err m f = Inr y \<longleftrightarrow> (\<exists>a. m = Inr a \<and> f a = Inr y)"
  by (cases m) simp_all

lemma py_update_Inr: "py_update d v = Inr d' \<Longrightarrow> d' = d ++\<^sub>f as_dict v"
  by (cases v) (auto simp: as_dict_def split: if_splits)

lemma py_update_truthy_Inr: "py_update d v = Inr d' \<Longrightarrow> truthy v \<Longrightarrow> \<exists>m. v = VDict m"
  by (cases v) (auto split: if_splits)

lemma get_defaults_field_update [simp]:
  "get_defaults x (self\<lparr>runner_level := a\<rparr>) t = get_defaults x self t"
  "get_defaults x (self\<lparr>runner_config := b\<rparr>) t = get_defaults x self t"
  "get_defaults x (self\<lparr>game_level := a\<rparr>) t = get_defaults x self t"
  "get_defaults x (self\<lparr>game_config := b\<rparr>) t = get_defaults x self t"
  "get_defaults x (self\<lparr>system_level := a\<rparr>) t = get_defaults x self t"
  "get_defaults x (self\<lparr>system_config := b\<rparr>) t = get_defaults x self t"
  by (simp_all add: get_defaults_def options_as_dict_def)

lemma dict_getitem_Inr:
  "dict_getitem d k = Inr v \<longleftrightarrow> (\<exists>k'. k = Some k' \<and> fmlookup d k' = Some v)"
  by (auto simp: dict_getitem_def split: option.splits)

lemma fmlookup_strip_falsy:
  "fmlookup (strip_falsy d) k = (if truthy (dict_get d k) then fmlookup d k else None)"
  by (simp add: strip_falsy_def)

lemma fmlookup_add_as_dict:
  "fmlookup m k = Some v \<Longrightarrow> fmlookup (a ++\<^sub>f as_dict (VDict m)) k = Some v"
  by (simp add: as_dict_def fmlookup_dom_iff)

lemma dict_get_Some: "fmlookup d k = Some v \<Longrightarrow> dict_get d k = v"
  by (simp add: dict_get_def)

lemma fmlookup_not_None_dict_get:
  "dict_get d k \<noteq> VNone \<Longrightarrow> fmlookup d k = Some (dict_get d k)"
  by (auto simp: dict_get_def split: option.splits)

subsection \<open>Inserting a section\<close>

text \<open>
  \<open>ensure_section\<close> changes only the key it is given, and only when that key is absent or
  holds \<^verbatim>\<open>None\<close>.
\<close>

lemma dict_get_ensure_section_other [simp]:
  "k \<noteq> k' \<Longrightarrow> dict_get (ensure_section k d) k' = dict_get d k'"
  by (simp add: ensure_section_def dict_get_def)

lemma dict_get_ensure_section_same:
  "dict_get (ensure_section k d) k = (if dict_get d k = VNone then VDict fmempty else dict_get d k)"
  by (simp add: ensure_section_def dict_get_def)

lemma fmlookup_ensure_section:
  "fmlookup (ensure_section k' d) k =
     (if k = k' \<and> dict_get d k = VNone then Some (VDict fmempty) else fmlookup d k)"
  by (auto simp: ensure_section_def dict_get_def)

lemma ensure_section_keeps:
  "fmlookup d k = Some v \<Longrightarrow> v \<noteq> VNone \<Longrightarrow> fmlookup (ensure_section k' d) k = Some v"
  by (simp add: fmlookup_ensure_section dict_get_def)

lemma ensure_section_inserts:
  "dict_get d k = dict_get d0 k \<Longrightarrow>
   fmlookup (ensure_section k d) k =
     Some (if dict_get d0 k = VNone then VDict fmempty else dict_get d0 k)"
  by (auto simp: ensure_section_def dict_get_def split: option.splits)

lemma ensure_section_inserted_stays:
  "fmlookup d k = Some (if dict_get d0 k = VNone then VDict fmempty else dict_get d0 k) \<Longrightarrow>
   fmlookup (ensure_section k' d) k =
     Some (if dict_get d0 k = VNone then VDict fmempty else dict_get d0 k)"
  by (rule ensure_section_keeps) auto

lemma ensure_section_twice:
  assumes "k = a \<or> k = b"
  shows "fmlookup (ensure_section a (ensure_section b d)) k =
           Some (if dict_get d k = VNone then VDict fmempty else dict_get d k)"
proof (cases "k = b")
  case True
  have "fmlookup (ensure_section b d) b =
          Some (if dict_get d b = VNone then VDict fmempty else dict_get d b)"
    by (rule ensure_section_inserts) simp
  then show ?thesis
    unfolding True by (rule ensure_section_inserted_stays)
next
  case False
  with assms have k: "k = a" and ne: "b \<noteq> a" by auto
  have "dict_get (ensure_section b d) a = dict_get d a"
    using ne by simp
  then show ?thesis
    unfolding k by (rule ensure_section_inserts)
qed

lemma ensure_section_thrice:
  assumes "k = a \<or> k = b \<or> k = c"
  shows "fmlookup (ensure_section a (ensure_section b (ensure_section c d))) k =
           Some (if dict_get d k = VNone then VDict fmempty else dict_get d k)"
proof (cases "k = b \<or> k = c")
  case True
  then have "fmlookup (ensure_section b (ensure_section c d)) k =
          Some (if dict_get d k = VNone then VDict fmempty else dict_get d k)"
    by (rule ensure_section_twice)
  then show ?thesis
    by (rule ensure_section_inserted_stays)
next
  case False
  with assms have k: "k = a" and ne: "b \<noteq> a" "c \<noteq> a" by auto
  have "dict_get (ensure_section b (ensure_section c d)) a = dict_get d a"
    using ne by simp
  then show ?thesis
    unfolding k by (rule ensure_section_inserts)
qed

lemma ensure_keeps_dict:
  "fmlookup d sec = Some (VDict m) \<Longrightarrow> fmlookup (ensure_section a d) sec = Some (VDict m)"
  by (rule ensure_section_keeps) simp_all

lemma view_from_section:
  "fmlookup d sec = Some (VDict m) \<Longrightarrow> fmlookup m k = Some v \<Longrightarrow>
   fmlookup (a ++\<^sub>f as_dict (dict_get d sec)) k = Some v"
  by (simp add: dict_get_def as_dict_def fmlookup_dom_iff)

subsection \<open>The defaults loop\<close>

lemma distinct_options_fold:
  "distinct (map fst acc) \<Longrightarrow>
   distinct (map fst (foldl (\<lambda>d opt. AList.update (opt_option opt) opt d) acc options))"
  by (induction options arbitrary: acc) (simp_all add: distinct_update)

lemma distinct_options_as_dict: "distinct (map fst (options_as_dict x self options_type))"
  by (simp add: options_as_dict_def Let_def distinct_options_fold)

lemma get_defaults_loop_log_mono:
  "set lg0 \<subseteq> set (snd (get_defaults_loop xs (d0, lg0)))"
proof (induction xs arbitrary: d0 lg0)
  case Nil
  then show ?case by simp
next
  case (Cons a xs)
  obtain n p where a: "a = (n, p)" by (cases a)
  show ?case
    using Cons.IH [of lg0 d0] Cons.IH [of lg0 "fmupd n _ d0"] Cons.IH [of "lg0 @ [_]" d0]
    by (auto simp: a split: option.splits dflt.splits sum.splits)
qed

lemma get_defaults_loop_lookup:
  "distinct (map fst xs) \<Longrightarrow>
   fmlookup (fst (get_defaults_loop xs (d0, lg0))) n =
     (case map_of xs n of
        None \<Rightarrow> fmlookup d0 n
      | Some p \<Rightarrow>
          (case opt_default p of
             None \<Rightarrow> fmlookup d0 n
           | Some (Literal v) \<Rightarrow> Some v
           | Some (Callable f) \<Rightarrow> (case f () of Inl ex \<Rightarrow> fmlookup d0 n | Inr v \<Rightarrow> Some v)))"
proof (induction xs arbitrary: d0 lg0 n)
  case Nil
  then show ?case by simp
next
  case (Cons a xs)
  obtain m p where a: "a = (m, p)" by (cases a)
  from Cons.prems have d: "distinct (map fst xs)" and m: "map_of xs m = None"
    by (auto simp: a map_of_eq_None_iff)
  show ?case
    using m by (auto simp: a Cons.IH [OF d] split: option.splits dflt.splits sum.splits)
qed

lemma get_defaults_loop_logged:
  "(n, p) \<in> set xs \<Longrightarrow> opt_default p = Some (Callable f) \<Longrightarrow> f () = Inl ex \<Longrightarrow>
   Exception_default n ex \<in> set (snd (get_defaults_loop xs (d0, lg0)))"
proof (induction xs arbitrary: d0 lg0)
  case Nil
  then show ?case by simp
next
  case (Cons a xs)
  obtain m q where a: "a = (m, q)" by (cases a)
  show ?case
  proof (cases "(n, p) = (m, q)")
    case True
    then show ?thesis
      using Cons.prems(2,3)
        get_defaults_loop_log_mono [of "lg0 @ [Exception_default n ex]" xs d0]
      by (auto simp: a)
  next
    case False
    then have "(n, p) \<in> set xs" using Cons.prems(1) by (auto simp: a)
    then show ?thesis
      using Cons.IH Cons.prems(2,3)
      by (auto simp: a split: option.splits dflt.splits sum.splits)
  qed
qed

subsection \<open>Merging into the system view\<close>

text \<open>
  When \<^verbatim>\<open>merge_env\<close> returns, it has changed at most the entry \<open>env\<close> of
  \<^verbatim>\<open>system_config\<close>.
\<close>

lemma merge_env_Inr:
  "merge_env new_env self = Inr self' \<Longrightarrow>
   \<exists>e. self' = self\<lparr>system_config := e\<rparr> \<and>
       (\<forall>k. k \<noteq> ''env'' \<longrightarrow> fmlookup e k = fmlookup (system_config self) k)"
  apply (auto simp: merge_env_def bind_err_eq_Inr split: if_splits option.splits val.splits)
       apply (rule exI [of _ "system_config self"]; simp)+
  done

text \<open>
  When \<^verbatim>\<open>merge_to_system_config\<close> returns, \<^verbatim>\<open>system_config\<close> is the plain update of the old
  one with the merged section: the entry \<open>env\<close> that \<^verbatim>\<open>merge_env\<close> has just combined is
  overwritten by the final \<^verbatim>\<open>self.system_config.update(config)\<close>, since \<open>env\<close> is a key of
  \<open>config\<close> whenever \<^verbatim>\<open>merge_env\<close> was called.
\<close>

lemma merge_to_system_config_Inr:
  assumes "merge_to_system_config config self = Inr self'"
  shows "self' = self\<lparr>system_config := system_config self ++\<^sub>f as_dict config\<rparr>"
proof (cases "truthy config")
  case False
  then have "as_dict config = fmempty"
    by (cases config) (auto simp: as_dict_def)
  with False assms show ?thesis
    by (simp add: merge_to_system_config_def)
next
  case True
  with assms obtain has_env s1 merged where
    c: "py_contains ''env'' config = Inr has_env" and
    e: "(if has_env then bind_err (py_getitem config ''env'') (\<lambda>new_env. merge_env new_env self)
         else Inr self) = Inr s1" and
    u: "py_update (system_config s1) config = Inr merged" and
    r: "self' = s1\<lparr>system_config := merged\<rparr>"
    by (auto simp: merge_to_system_config_def bind_err_eq_Inr)
  from u True obtain m where m: "config = VDict m"
    using py_update_truthy_Inr by blast
  show ?thesis
  proof (cases has_env)
    case False
    with e have "s1 = self" by simp
    with u r m show ?thesis by (simp add: as_dict_def)
  next
    case True
    with c m have inm: "''env'' |\<in>| fmdom m" by simp
    from True e obtain new_env where "merge_env new_env self = Inr s1"
      by (auto simp: bind_err_eq_Inr)
    then obtain e' where s1: "s1 = self\<lparr>system_config := e'\<rparr>"
      and same: "\<forall>k. k \<noteq> ''env'' \<longrightarrow> fmlookup e' k = fmlookup (system_config self) k"
      using merge_env_Inr by blast
    have "e' ++\<^sub>f m = system_config self ++\<^sub>f m"
    proof (rule fmap_ext)
      fix k show "fmlookup (e' ++\<^sub>f m) k = fmlookup (system_config self ++\<^sub>f m) k"
        using same inm by (cases "k = ''env''") (auto simp: fmlookup_dom_iff)
    qed
    with u r m s1 show ?thesis by (simp add: as_dict_def)
  qed
qed

subsection \<open>The cascade, block by block and by level\<close>

text \<open>What each block of \<^verbatim>\<open>update_cascaded_config\<close> has done when it returns.\<close>

lemma cascade_system_Inr:
  assumes "cascade_system x (w, self) = Inr (w', self')"
  shows "self' = self\<lparr>system_level := ensure_section ''system'' (system_level self),
                      system_config := fst (get_defaults x self SYSTEM) ++\<^sub>f
                         as_dict (dict_get (ensure_section ''system'' (system_level self)) ''system'')\<rparr>"
    and "files w' = files w"
  using assms
  by (auto simp: cascade_system_def Let_def bind_err_eq_Inr get_defaults_def options_as_dict_def
           split: prod.splits dest!: py_update_Inr)

lemma cascade_runner_skip:
  "\<not> (level self \<noteq> SYSTEM \<and> truthy_id (runner_slug self)) \<Longrightarrow>
   cascade_runner x (w, self) = Inr (w, self)"
  by (cases "level self"; cases "runner_slug self"; simp add: cascade_runner_def)

lemma cascade_runner_Inr:
  assumes "cascade_runner x (w, self) = Inr (w', self')"
    and "level self \<noteq> SYSTEM" and "runner_slug self = Some slug" and "slug \<noteq> []"
  shows "self' =
        self\<lparr>runner_level := ensure_section ''system'' (ensure_section slug (runner_level self)),
             runner_config := fst (get_defaults x self RUNNER) ++\<^sub>f
                 as_dict (dict_get (ensure_section ''system''
                    (ensure_section slug (runner_level self))) slug),
             system_config := system_config self ++\<^sub>f
                 as_dict (dict_get (ensure_section ''system''
                    (ensure_section slug (runner_level self))) ''system'')\<rparr>"
    and "files w' = files w"
proof -
  have c: "level self \<in> {RUNNER, GAME}" using assms(2) by (cases "level self") simp_all
  obtain d lg where g: "get_defaults x self RUNNER = (d, lg)" by (cases "get_defaults x self RUNNER")
  from assms(1) c assms(3,4) g obtain merged s1 where
    u: "py_update (fmempty ++\<^sub>f d) (dict_get (ensure_section ''system'' (ensure_section slug (runner_level self))) slug) = Inr merged"
    and m: "merge_to_system_config (dict_get (ensure_section ''system'' (ensure_section slug (runner_level self))) ''system'')
             (self\<lparr>runner_level := ensure_section ''system'' (ensure_section slug (runner_level self)),
                    runner_config := merged\<rparr>) = Inr s1"
    and r: "w' = w\<lparr>log_records := log_records w @ lg\<rparr>" "self' = s1"
    by (auto simp: cascade_runner_def Let_def bind_err_eq_Inr)
  show "self' =
        self\<lparr>runner_level := ensure_section ''system'' (ensure_section slug (runner_level self)),
             runner_config := fst (get_defaults x self RUNNER) ++\<^sub>f
                 as_dict (dict_get (ensure_section ''system''
                    (ensure_section slug (runner_level self))) slug),
             system_config := system_config self ++\<^sub>f
                 as_dict (dict_get (ensure_section ''system''
                    (ensure_section slug (runner_level self))) ''system'')\<rparr>"
    using py_update_Inr [OF u] merge_to_system_config_Inr [OF m] r g by simp
  show "files w' = files w" using r by simp
qed

lemma cascade_game_skip:
  "\<not> (level self = GAME \<and> truthy_id (runner_slug self)) \<Longrightarrow>
   cascade_game x (w, self) = Inr (w, self)"
  by (cases "runner_slug self"; simp add: cascade_game_def)

lemma cascade_game_Inr:
  assumes "cascade_game x (w, self) = Inr (w', self')"
    and "level self = GAME" and "runner_slug self = Some slug" and "slug \<noteq> []"
  shows "self' =
        self\<lparr>game_level := ensure_section ''system'' (ensure_section slug
                               (ensure_section ''game'' (game_level self))),
             game_config := fst (get_defaults x self GAME) ++\<^sub>f
                 as_dict (dict_get (ensure_section ''system'' (ensure_section slug
                               (ensure_section ''game'' (game_level self)))) ''game''),
             runner_config := runner_config self ++\<^sub>f
                 as_dict (dict_get (ensure_section ''system'' (ensure_section slug
                               (ensure_section ''game'' (game_level self)))) slug),
             system_config := system_config self ++\<^sub>f
                 as_dict (dict_get (ensure_section ''system'' (ensure_section slug
                               (ensure_section ''game'' (game_level self)))) ''system'')\<rparr>"
    and "files w' = files w"
proof -
  let ?G = "ensure_section ''system'' (ensure_section slug (ensure_section ''game'' (game_level self)))"
  obtain d lg where g: "get_defaults x self GAME = (d, lg)" by (cases "get_defaults x self GAME")
  from assms g obtain mg mr s1 where
    u: "py_update (fmempty ++\<^sub>f d) (dict_get ?G ''game'') = Inr mg"
    and v: "py_update (runner_config self) (dict_get ?G slug) = Inr mr"
    and m: "merge_to_system_config (dict_get ?G ''system'')
             (self\<lparr>game_level := ?G, game_config := mg, runner_config := mr\<rparr>) = Inr s1"
    and r: "w' = w\<lparr>log_records := log_records w @ lg\<rparr>" "self' = s1"
    by (auto simp: cascade_game_def Let_def bind_err_eq_Inr)
  show "self' = self\<lparr>game_level := ?G,
             game_config := fst (get_defaults x self GAME) ++\<^sub>f as_dict (dict_get ?G ''game''),
             runner_config := runner_config self ++\<^sub>f as_dict (dict_get ?G slug),
             system_config := system_config self ++\<^sub>f as_dict (dict_get ?G ''system'')\<rparr>"
    using py_update_Inr [OF u] py_update_Inr [OF v] merge_to_system_config_Inr [OF m] r g by simp
  show "files w' = files w" using r by simp
qed

text \<open>What \<^verbatim>\<open>update_cascaded_config\<close> has done when it returns, by level.\<close>

lemma update_cascaded_config_split:
  assumes "update_cascaded_config x w self = Inr (w', self')"
  obtains w1 s1 w2 s2 where
    "cascade_system x (w, self) = Inr (w1, s1)"
    "cascade_runner x (w1, s1) = Inr (w2, s2)"
    "cascade_game x (w2, s2) = Inr (w', self')"
  using assms by (auto simp: update_cascaded_config_def bind_err_eq_Inr)

lemma update_cascaded_config_system_only:
  assumes "update_cascaded_config x w self = Inr (w', self')"
    and "level self = SYSTEM \<or> \<not> truthy_id (runner_slug self)"
  shows "self' = self\<lparr>system_level := ensure_section ''system'' (system_level self),
                      system_config := fst (get_defaults x self SYSTEM) ++\<^sub>f
                         as_dict (dict_get (ensure_section ''system'' (system_level self)) ''system'')\<rparr>"
    and "files w' = files w"
proof -
  from assms(1) obtain w1 s1 w2 s2 where
    a: "cascade_system x (w, self) = Inr (w1, s1)" and
    b: "cascade_runner x (w1, s1) = Inr (w2, s2)" and
    c: "cascade_game x (w2, s2) = Inr (w', self')"
    by (rule update_cascaded_config_split)
  note s1 = cascade_system_Inr [OF a]
  have n1: "\<not> (level s1 \<noteq> SYSTEM \<and> truthy_id (runner_slug s1))"
    using assms(2) s1(1) by auto
  have b': "(w2, s2) = (w1, s1)" using b cascade_runner_skip [OF n1, of x w1] by simp
  have n2: "\<not> (level s2 = GAME \<and> truthy_id (runner_slug s2))"
    using n1 b' by auto
  have c': "(w', self') = (w2, s2)" using c cascade_game_skip [OF n2, of x w2] by simp
  show "self' = self\<lparr>system_level := ensure_section ''system'' (system_level self),
                      system_config := fst (get_defaults x self SYSTEM) ++\<^sub>f
                         as_dict (dict_get (ensure_section ''system'' (system_level self)) ''system'')\<rparr>"
    using s1(1) b' c' by simp
  show "files w' = files w" using s1(2) b' c' by simp
qed

lemma update_cascaded_config_runner:
  assumes "update_cascaded_config x w self = Inr (w', self')"
    and "level self = RUNNER" and "runner_slug self = Some slug" and "slug \<noteq> []"
  shows "self' = self\<lparr>
           system_level := ensure_section ''system'' (system_level self),
           runner_level := ensure_section ''system'' (ensure_section slug (runner_level self)),
           runner_config := fst (get_defaults x self RUNNER) ++\<^sub>f
              as_dict (dict_get (ensure_section ''system''
                                   (ensure_section slug (runner_level self))) slug),
           system_config := (fst (get_defaults x self SYSTEM) ++\<^sub>f
              as_dict (dict_get (ensure_section ''system'' (system_level self)) ''system'')) ++\<^sub>f
              as_dict (dict_get (ensure_section ''system''
                                   (ensure_section slug (runner_level self))) ''system'')\<rparr>"
    and "files w' = files w"
proof -
  from assms(1) obtain w1 s1 w2 s2 where
    a: "cascade_system x (w, self) = Inr (w1, s1)" and
    b: "cascade_runner x (w1, s1) = Inr (w2, s2)" and
    c: "cascade_game x (w2, s2) = Inr (w', self')"
    by (rule update_cascaded_config_split)
  note s1 = cascade_system_Inr [OF a]
  have l1: "level s1 \<noteq> SYSTEM" "runner_slug s1 = Some slug"
    using assms(2,3) s1(1) by auto
  note s2 = cascade_runner_Inr [OF b l1 assms(4)]
  have n2: "\<not> (level s2 = GAME \<and> truthy_id (runner_slug s2))"
    using s2(1) s1(1) assms(2) by auto
  have c': "(w', self') = (w2, s2)" using c cascade_game_skip [OF n2, of x w2] by simp
  show "self' = self\<lparr>
           system_level := ensure_section ''system'' (system_level self),
           runner_level := ensure_section ''system'' (ensure_section slug (runner_level self)),
           runner_config := fst (get_defaults x self RUNNER) ++\<^sub>f
              as_dict (dict_get (ensure_section ''system''
                                   (ensure_section slug (runner_level self))) slug),
           system_config := (fst (get_defaults x self SYSTEM) ++\<^sub>f
              as_dict (dict_get (ensure_section ''system'' (system_level self)) ''system'')) ++\<^sub>f
              as_dict (dict_get (ensure_section ''system''
                                   (ensure_section slug (runner_level self))) ''system'')\<rparr>"
    using c' by (simp add: s2(1) s1(1))
  show "files w' = files w" using s1(2) s2(2) c' by simp
qed

lemma update_cascaded_config_game:
  assumes "update_cascaded_config x w self = Inr (w', self')"
    and "level self = GAME" and "runner_slug self = Some slug" and "slug \<noteq> []"
  shows "self' = self\<lparr>
           system_level := ensure_section ''system'' (system_level self),
           runner_level := ensure_section ''system'' (ensure_section slug (runner_level self)),
           game_level := ensure_section ''system'' (ensure_section slug
                           (ensure_section ''game'' (game_level self))),
           game_config := fst (get_defaults x self GAME) ++\<^sub>f
              as_dict (dict_get (ensure_section ''system'' (ensure_section slug
                           (ensure_section ''game'' (game_level self)))) ''game''),
           runner_config := (fst (get_defaults x self RUNNER) ++\<^sub>f
              as_dict (dict_get (ensure_section ''system''
                                   (ensure_section slug (runner_level self))) slug)) ++\<^sub>f
              as_dict (dict_get (ensure_section ''system'' (ensure_section slug
                           (ensure_section ''game'' (game_level self)))) slug),
           system_config := ((fst (get_defaults x self SYSTEM) ++\<^sub>f
              as_dict (dict_get (ensure_section ''system'' (system_level self)) ''system'')) ++\<^sub>f
              as_dict (dict_get (ensure_section ''system''
                                   (ensure_section slug (runner_level self))) ''system'')) ++\<^sub>f
              as_dict (dict_get (ensure_section ''system'' (ensure_section slug
                           (ensure_section ''game'' (game_level self)))) ''system'')\<rparr>"
    and "files w' = files w"
proof -
  from assms(1) obtain w1 s1 w2 s2 where
    a: "cascade_system x (w, self) = Inr (w1, s1)" and
    b: "cascade_runner x (w1, s1) = Inr (w2, s2)" and
    c: "cascade_game x (w2, s2) = Inr (w', self')"
    by (rule update_cascaded_config_split)
  note s1 = cascade_system_Inr [OF a]
  have l1: "level s1 \<noteq> SYSTEM" "runner_slug s1 = Some slug"
    using assms(2,3) s1(1) by auto
  note s2 = cascade_runner_Inr [OF b l1 assms(4)]
  have l2: "level s2 = GAME" "runner_slug s2 = Some slug"
    using assms(2,3) s1(1) s2(1) by auto
  note s3 = cascade_game_Inr [OF c l2 assms(4)]
  show "self' = self\<lparr>
           system_level := ensure_section ''system'' (system_level self),
           runner_level := ensure_section ''system'' (ensure_section slug (runner_level self)),
           game_level := ensure_section ''system'' (ensure_section slug
                           (ensure_section ''game'' (game_level self))),
           game_config := fst (get_defaults x self GAME) ++\<^sub>f
              as_dict (dict_get (ensure_section ''system'' (ensure_section slug
                           (ensure_section ''game'' (game_level self)))) ''game''),
           runner_config := (fst (get_defaults x self RUNNER) ++\<^sub>f
              as_dict (dict_get (ensure_section ''system''
                                   (ensure_section slug (runner_level self))) slug)) ++\<^sub>f
              as_dict (dict_get (ensure_section ''system'' (ensure_section slug
                           (ensure_section ''game'' (game_level self)))) slug),
           system_config := ((fst (get_defaults x self SYSTEM) ++\<^sub>f
              as_dict (dict_get (ensure_section ''system'' (system_level self)) ''system'')) ++\<^sub>f
              as_dict (dict_get (ensure_section ''system''
                                   (ensure_section slug (runner_level self))) ''system'')) ++\<^sub>f
              as_dict (dict_get (ensure_section ''system'' (ensure_section slug
                           (ensure_section ''game'' (game_level self)))) ''system'')\<rparr>"
    by (simp add: s3(1) s2(1) s1(1))
  show "files w' = files w" using s1(2) s2(2) s3(2) by simp
qed

lemma update_cascaded_config_frame:
  assumes "update_cascaded_config x w self = Inr (w', self')"
  shows "level self' = level self" "runner_slug self' = runner_slug self"
    "game_config_id self' = game_config_id self" "files w' = files w"
    "system_level self' = ensure_section ''system'' (system_level self)"
    "runner_level self' =
       (if level self \<noteq> SYSTEM \<and> truthy_id (runner_slug self)
        then ensure_section ''system'' (ensure_section (the (runner_slug self)) (runner_level self))
        else runner_level self)"
    "game_level self' =
       (if level self = GAME \<and> truthy_id (runner_slug self)
        then ensure_section ''system'' (ensure_section (the (runner_slug self))
               (ensure_section ''game'' (game_level self)))
        else game_level self)"
proof -
  consider (sys) "level self = SYSTEM \<or> \<not> truthy_id (runner_slug self)"
    | (run) slug where "level self = RUNNER" "runner_slug self = Some slug" "slug \<noteq> []"
    | (game) slug where "level self = GAME" "runner_slug self = Some slug" "slug \<noteq> []"
    by (cases "level self"; cases "runner_slug self"; auto)
  then have "level self' = level self \<and> runner_slug self' = runner_slug self \<and>
    game_config_id self' = game_config_id self \<and> files w' = files w \<and>
    system_level self' = ensure_section ''system'' (system_level self) \<and>
    runner_level self' =
       (if level self \<noteq> SYSTEM \<and> truthy_id (runner_slug self)
        then ensure_section ''system'' (ensure_section (the (runner_slug self)) (runner_level self))
        else runner_level self) \<and>
    game_level self' =
       (if level self = GAME \<and> truthy_id (runner_slug self)
        then ensure_section ''system'' (ensure_section (the (runner_slug self))
               (ensure_section ''game'' (game_level self)))
        else game_level self)"
  proof cases
    case sys
    show ?thesis
      using sys update_cascaded_config_system_only(2) [OF assms sys]
      by (subst (1 2 3 4 5 6) update_cascaded_config_system_only(1) [OF assms sys]) auto
  next
    case run
    show ?thesis
      using run update_cascaded_config_runner(2) [OF assms run]
      by (subst (1 2 3 4 5 6) update_cascaded_config_runner(1) [OF assms run]) auto
  next
    case game
    show ?thesis
      using game update_cascaded_config_game(2) [OF assms game]
      by (subst (1 2 3 4 5 6) update_cascaded_config_game(1) [OF assms game]) auto
  qed
  then show "level self' = level self" "runner_slug self' = runner_slug self"
    "game_config_id self' = game_config_id self" "files w' = files w"
    "system_level self' = ensure_section ''system'' (system_level self)"
    "runner_level self' =
       (if level self \<noteq> SYSTEM \<and> truthy_id (runner_slug self)
        then ensure_section ''system'' (ensure_section (the (runner_slug self)) (runner_level self))
        else runner_level self)"
    "game_level self' =
       (if level self = GAME \<and> truthy_id (runner_slug self)
        then ensure_section ''system'' (ensure_section (the (runner_slug self))
               (ensure_section ''game'' (game_level self)))
        else game_level self)"
    by simp_all
qed

lemma cascade_inserts_sections_aux:
  assumes "update_cascaded_config x w self = Inr (w', self')"
    and "consulted self t k"
  shows "fmlookup (level_dict self' t) k =
           Some (if dict_get (level_dict self t) k = VNone then VDict fmempty
                 else dict_get (level_dict self t) k)"
proof -
  note f = update_cascaded_config_frame [OF assms(1)]
  show ?thesis
  proof (cases t)
    case SYSTEM
    with assms(2) have "k = ''system''" by simp
    with SYSTEM f(5) show ?thesis
      by (simp add: ensure_section_inserts)
  next
    case RUNNER
    from assms(2) RUNNER obtain slug where
      c: "level self \<noteq> SYSTEM" "runner_slug self = Some slug" "slug \<noteq> []"
         "k = ''system'' \<or> k = slug"
      by (cases "runner_slug self") auto
    have "runner_level self' = ensure_section ''system'' (ensure_section slug (runner_level self))"
      using f(6) c by simp
    with RUNNER show ?thesis
      using ensure_section_twice [OF c(4), of "runner_level self"] by simp
  next
    case GAME
    from assms(2) GAME obtain slug where
      c: "level self = GAME" "runner_slug self = Some slug" "slug \<noteq> []"
         "k = ''system'' \<or> k = slug \<or> k = ''game''"
      by (cases "runner_slug self") auto
    have "game_level self' = ensure_section ''system'' (ensure_section slug
             (ensure_section ''game'' (game_level self)))"
      using f(7) c by simp
    with GAME show ?thesis
      using ensure_section_thrice [OF c(4), of "game_level self"] by simp
  qed
qed

text \<open>A cascade changes no entry of a raw layer other than the sections it consults.\<close>

lemma cascade_keeps_other_keys:
  assumes "update_cascaded_config x w self = Inr (w', self')"
    and "\<not> consulted self t k"
  shows "fmlookup (level_dict self' t) k = fmlookup (level_dict self t) k"
proof -
  note f = update_cascaded_config_frame [OF assms(1)]
  show ?thesis
  proof (cases t)
    case SYSTEM
    with assms(2) f(5) show ?thesis
      by (simp add: fmlookup_ensure_section)
  next
    case RUNNER
    with assms(2) f(6) show ?thesis
      by (cases "runner_slug self") (auto simp: fmlookup_ensure_section)
  next
    case GAME
    with assms(2) f(7) show ?thesis
      by (cases "runner_slug self") (auto simp: fmlookup_ensure_section)
  qed
qed

text \<open>
  The options of a section of the current level's raw layer are in the cascaded view of
  that section after a cascade.
\<close>

lemma cascade_shows_current_layer:
  assumes u: "update_cascaded_config x w s0 = Inr (w', s1)"
    and lev: "level s0 = SYSTEM \<or> truthy_id (runner_slug s0)"
    and kinds: "level s0 = SYSTEM \<longrightarrow> kind = SYSTEM" "level s0 = RUNNER \<longrightarrow> kind \<noteq> GAME"
    and sk: "section_key s0 kind = Some sec"
    and sec: "fmlookup (level_dict s0 (level s0)) sec = Some (VDict m)"
    and k: "fmlookup m k = Some v"
  shows "fmlookup (cascaded_view s1 kind) k = Some v"
proof (cases "level s0")
  case SYSTEM
  with kinds have kd: "kind = SYSTEM" by simp
  with sk have s: "sec = ''system''" by simp
  have c: "level s0 = SYSTEM \<or> \<not> truthy_id (runner_slug s0)" using SYSTEM by simp
  have "fmlookup (ensure_section ''system'' (system_level s0)) sec = Some (VDict m)"
    using sec SYSTEM by (simp add: ensure_keeps_dict)
  then show ?thesis
    unfolding kd s by (subst update_cascaded_config_system_only(1) [OF u c])
      (use k in \<open>simp add: dict_get_def as_dict_def fmlookup_dom_iff s\<close>)
next
  case RUNNER
  with lev obtain slug where sl: "runner_slug s0 = Some slug" "slug \<noteq> []"
    by (cases "runner_slug s0") auto
  have e: "fmlookup (ensure_section ''system'' (ensure_section slug (runner_level s0))) sec
             = Some (VDict m)"
    using sec RUNNER by (simp add: ensure_keeps_dict)
  from kinds RUNNER consider "kind = SYSTEM" | "kind = RUNNER" by (cases kind) auto
  then show ?thesis
  proof cases
    case 1
    with sk have s: "sec = ''system''" by simp
    show ?thesis
      unfolding 1 by (subst update_cascaded_config_runner(1) [OF u RUNNER sl])
        (use e k in \<open>simp add: dict_get_def as_dict_def fmlookup_dom_iff s\<close>)
  next
    case 2
    with sk sl have s: "sec = slug" by simp
    show ?thesis
      unfolding 2 by (subst update_cascaded_config_runner(1) [OF u RUNNER sl])
        (use e k in \<open>simp add: dict_get_def as_dict_def fmlookup_dom_iff s\<close>)
  qed
next
  case GAME
  with lev obtain slug where sl: "runner_slug s0 = Some slug" "slug \<noteq> []"
    by (cases "runner_slug s0") auto
  have e: "fmlookup (ensure_section ''system'' (ensure_section slug
             (ensure_section ''game'' (game_level s0)))) sec = Some (VDict m)"
    using sec GAME by (simp add: ensure_keeps_dict)
  show ?thesis
  proof (cases kind)
    case SYSTEM
    with sk have s: "sec = ''system''" by simp
    show ?thesis
      unfolding SYSTEM by (subst update_cascaded_config_game(1) [OF u GAME sl])
        (use e k in \<open>simp add: dict_get_def as_dict_def fmlookup_dom_iff s\<close>)
  next
    case RUNNER
    with sk sl have s: "sec = slug" by simp
    show ?thesis
      unfolding RUNNER by (subst update_cascaded_config_game(1) [OF u GAME sl])
        (use e k in \<open>simp add: dict_get_def as_dict_def fmlookup_dom_iff s\<close>)
  next
    case g: GAME
    with sk have s: "sec = ''game''" by simp
    show ?thesis
      unfolding g by (subst update_cascaded_config_game(1) [OF u GAME sl])
        (use e k in \<open>simp add: dict_get_def as_dict_def fmlookup_dom_iff s\<close>)
  qed
qed

subsection \<open>The raw-section shortcuts\<close>

lemma update_raw_config_Inr:
  assumes "update_raw_config self = Inr self'"
  shows "\<exists>a b c. self' = self\<lparr>raw_system_config := a, raw_runner_config := b,
                               raw_game_config := c,
                               raw_config := level_dict self (level self)\<rparr>"
    and "fmlookup (level_dict self (level self)) ''system'' = Some (raw_system_config self')"
    and "level self \<noteq> SYSTEM \<Longrightarrow> \<exists>slug. runner_slug self = Some slug \<and>
           fmlookup (level_dict self (level self)) slug = Some (raw_runner_config self')"
    and "level self = GAME \<Longrightarrow>
           fmlookup (level_dict self (level self)) ''game'' = Some (raw_game_config self')"
proof -
  let ?rc = "level_dict self (level self)"
  from assms obtain a s2 s3 where
    a0: "dict_getitem ?rc (Some (level_value SYSTEM)) = Inr a" and
    b0: "(if level (self\<lparr>raw_system_config := a\<rparr>) \<in> {RUNNER, GAME}
         then bind_err (dict_getitem ?rc (runner_slug (self\<lparr>raw_system_config := a\<rparr>)))
                (\<lambda>v. Inr (self\<lparr>raw_system_config := a\<rparr>\<lparr>raw_runner_config := v\<rparr>))
         else Inr (self\<lparr>raw_system_config := a\<rparr>)) = Inr s2" and
    c0: "(if level s2 = GAME
         then bind_err (dict_getitem ?rc (Some (level_value GAME)))
                (\<lambda>v. Inr (s2\<lparr>raw_game_config := v\<rparr>))
         else Inr s2) = Inr s3" and
    d: "self' = s3\<lparr>raw_config := ?rc\<rparr>"
    unfolding update_raw_config_def Let_def bind_err_eq_Inr by blast
  from a0 have a: "fmlookup ?rc ''system'' = Some a"
    by (simp add: dict_getitem_Inr)
  have b': "\<exists>v. s2 = self\<lparr>raw_system_config := a, raw_runner_config := v\<rparr> \<and>
       (level self \<noteq> SYSTEM \<longrightarrow> (\<exists>slug. runner_slug self = Some slug \<and>
           fmlookup ?rc slug = Some v))"
  proof (cases "level self = SYSTEM")
    case False
    then have "level (self\<lparr>raw_system_config := a\<rparr>) \<in> {RUNNER, GAME}"
      by (cases "level self") simp_all
    with b0 have "bind_err (dict_getitem ?rc (runner_slug (self\<lparr>raw_system_config := a\<rparr>)))
                (\<lambda>v. Inr (self\<lparr>raw_system_config := a\<rparr>\<lparr>raw_runner_config := v\<rparr>)) = Inr s2"
      by (simp only: if_True simp_thms)
    then show ?thesis
      unfolding bind_err_eq_Inr dict_getitem_Inr by auto
  next
    case True
    then have "\<not> level (self\<lparr>raw_system_config := a\<rparr>) \<in> {RUNNER, GAME}" by simp
    with b0 have "Inr (self\<lparr>raw_system_config := a\<rparr>) = (Inr s2 :: error + LutrisConfig)"
      by (simp only: if_False simp_thms)
    then have "s2 = self\<lparr>raw_system_config := a, raw_runner_config := raw_runner_config self\<rparr>"
      by auto
    with True show ?thesis by blast
  qed
  then obtain v where s2: "s2 = self\<lparr>raw_system_config := a, raw_runner_config := v\<rparr>"
    and v: "level self \<noteq> SYSTEM \<longrightarrow> (\<exists>slug. runner_slug self = Some slug \<and>
           fmlookup ?rc slug = Some v)" by blast
  have c': "\<exists>g. s3 = s2\<lparr>raw_game_config := g\<rparr> \<and>
       (level self = GAME \<longrightarrow> fmlookup ?rc ''game'' = Some g)"
  proof (cases "level self = GAME")
    case True
    then have "level s2 = GAME" using s2 by simp
    with c0 have "bind_err (dict_getitem ?rc (Some (level_value GAME)))
                (\<lambda>v. Inr (s2\<lparr>raw_game_config := v\<rparr>)) = Inr s3"
      by (simp only: if_True simp_thms)
    then show ?thesis
      unfolding bind_err_eq_Inr dict_getitem_Inr by auto
  next
    case False
    then have "level s2 \<noteq> GAME" using s2 by simp
    with c0 have "Inr s2 = (Inr s3 :: error + LutrisConfig)"
      by (simp only: if_False simp_thms)
    then have "s3 = s2\<lparr>raw_game_config := raw_game_config s2\<rparr>" by auto
    with False show ?thesis by blast
  qed
  then obtain g where s3: "s3 = s2\<lparr>raw_game_config := g\<rparr>"
    and g: "level self = GAME \<longrightarrow> fmlookup ?rc ''game'' = Some g" by blast
  show "\<exists>a b c. self' = self\<lparr>raw_system_config := a, raw_runner_config := b,
                               raw_game_config := c, raw_config := ?rc\<rparr>"
    using d s3 s2 by auto
  show "fmlookup ?rc ''system'' = Some (raw_system_config self')"
    using a d s3 s2 by simp
  show "level self \<noteq> SYSTEM \<Longrightarrow> \<exists>slug. runner_slug self = Some slug \<and>
           fmlookup ?rc slug = Some (raw_runner_config self')"
    using v d s3 s2 by simp
  show "level self = GAME \<Longrightarrow> fmlookup ?rc ''game'' = Some (raw_game_config self')"
    using g d s3 s2 by simp
qed

lemma update_raw_config_views:
  assumes "update_raw_config s1 = Inr self'"
  shows "cascaded_view self' kind = cascaded_view s1 kind"
proof -
  from update_raw_config_Inr(1) [OF assms] obtain a b c where
    s: "self' = s1\<lparr>raw_system_config := a, raw_runner_config := b, raw_game_config := c,
                    raw_config := level_dict s1 (level s1)\<rparr>" by blast
  show ?thesis by (subst s) (cases kind; simp)
qed

subsection \<open>Loading and saving\<close>

text \<open>
  \<^verbatim>\<open>initialize_config\<close> is loading followed by the two updates; it leaves the identifiers,
  the level and durable storage unchanged.
\<close>

lemma config_path_field_update [simp]:
  "game_config_path x (self\<lparr>game_level := a\<rparr>) = game_config_path x self"
  "game_config_path x (self\<lparr>runner_level := a\<rparr>) = game_config_path x self"
  "game_config_path x (self\<lparr>system_level := a\<rparr>) = game_config_path x self"
  "runner_config_path x (self\<lparr>game_level := a\<rparr>) = runner_config_path x self"
  "runner_config_path x (self\<lparr>runner_level := a\<rparr>) = runner_config_path x self"
  "runner_config_path x (self\<lparr>system_level := a\<rparr>) = runner_config_path x self"
  "system_config_path x (self\<lparr>game_level := a\<rparr>) = system_config_path x self"
  "system_config_path x (self\<lparr>runner_level := a\<rparr>) = system_config_path x self"
  "system_config_path x (self\<lparr>system_level := a\<rparr>) = system_config_path x self"
  by (simp_all add: game_config_path_def runner_config_path_def system_config_path_def)

lemma get_config_field_update [simp]:
  "get_config x w (self\<lparr>game_level := a\<rparr>) t = get_config x w self t"
  "get_config x w (self\<lparr>runner_level := a\<rparr>) t = get_config x w self t"
  "get_config x w (self\<lparr>system_level := a\<rparr>) t = get_config x w self t"
  by (cases t; simp add: game_config_path_def runner_config_path_def system_config_path_def)+

lemma initialize_config_loaded:
  "initialize_config x w self =
     bind_err (update_cascaded_config x w (loaded x w self)) (\<lambda>(w, self).
     bind_err (update_raw_config self) (\<lambda>self. Inr (w, self)))"
  by (simp add: initialize_config_def loaded_def Let_def)

lemma initialize_config_split:
  assumes "initialize_config x w self = Inr (w', self')"
  obtains s1 where "update_cascaded_config x w (loaded x w self) = Inr (w', s1)"
    and "update_raw_config s1 = Inr self'"
  using assms by (auto simp: initialize_config_loaded bind_err_eq_Inr)

lemma loaded_fields [simp]:
  "level (loaded x w self) = level self"
  "runner_slug (loaded x w self) = runner_slug self"
  "game_config_id (loaded x w self) = game_config_id self"
  "level_dict (loaded x w self) t = level_dict self t ++\<^sub>f get_config x w self t"
  by (cases t; simp add: loaded_def)+

lemma level_path_ids:
  "runner_slug a = runner_slug b \<Longrightarrow> game_config_id a = game_config_id b \<Longrightarrow>
   level_path x a t = level_path x b t"
  by (cases t) (simp_all add: system_config_path_def runner_config_path_def game_config_path_def)

lemma get_config_level_path: "get_config x w self t = read_yaml_from_file x w (level_path x self t)"
  by (cases t) simp_all

lemma initialize_config_frame:
  assumes "initialize_config x w self = Inr (w', self')"
  shows "level self' = level self" "runner_slug self' = runner_slug self"
    "game_config_id self' = game_config_id self" "files w' = files w"
    "raw_config self' = level_dict self' (level self')"
proof -
  from assms obtain s1 where
    u: "update_cascaded_config x w (loaded x w self) = Inr (w', s1)" and
    r: "update_raw_config s1 = Inr self'"
    by (rule initialize_config_split)
  note f = update_cascaded_config_frame [OF u]
  from update_raw_config_Inr(1) [OF r] obtain a b c where
    s: "self' = s1\<lparr>raw_system_config := a, raw_runner_config := b, raw_game_config := c,
                    raw_config := level_dict s1 (level s1)\<rparr>" by blast
  show "level self' = level self" "runner_slug self' = runner_slug self"
    "game_config_id self' = game_config_id self" "files w' = files w"
    using f s by simp_all
  show "raw_config self' = level_dict self' (level self')"
    by (subst (1 2 3) s) (cases "level s1"; simp)
qed

text \<open>Every entry of a loaded raw layer that is not None is still there after initialisation.\<close>

lemma initialize_config_keeps_entries:
  assumes "initialize_config x w self = Inr (w', self')"
    and "fmlookup (level_dict self t ++\<^sub>f get_config x w self t) k = Some v" and "v \<noteq> VNone"
  shows "fmlookup (level_dict self' t) k = Some v"
proof -
  from assms(1) obtain s1 where
    u: "update_cascaded_config x w (loaded x w self) = Inr (w', s1)" and
    r: "update_raw_config s1 = Inr self'"
    by (rule initialize_config_split)
  note f = update_cascaded_config_frame [OF u]
  from update_raw_config_Inr(1) [OF r] obtain a b c where
    s: "self' = s1\<lparr>raw_system_config := a, raw_runner_config := b, raw_game_config := c,
                    raw_config := level_dict s1 (level s1)\<rparr>" by blast
  have l: "level_dict self' t = level_dict s1 t" by (subst s) (cases t; simp)
  have "fmlookup (level_dict (loaded x w self) t) k = Some v"
    using assms(2) by simp
  then have "fmlookup (level_dict s1 t) k = Some v"
    using f(5,6,7) assms(3)
    by (cases t) (auto simp: ensure_section_keeps simp del: loaded_fields)
  with l show ?thesis by simp
qed

lemma save_resolvable:
  assumes "save x w self = Inr (w', self')" and "level_path x self (level self) = Some path"
  shows "initialize_config x
           (write_yaml_to_file x (strip_falsy (level_dict self (level self))) path
              (emit (Debug_saving (level self) (game_config_id self) (runner_slug self) path) w))
           self = Inr (w', self')"
  using assms by (simp add: save_def Let_def)

text \<open>
  After a save that returns, the file that the path of the current level names holds the
  raw layer of that level stripped of its falsy entries, and so does what is read for
  that level by any resolver with the same identifiers.
\<close>

lemma files_after_save:
  assumes "save x w self = Inr (w', self')" and "level_path x self (level self) = Some path"
  shows "files w' = (files w)(locate x path \<mapsto> strip_falsy (level_dict self (level self)))"
  using initialize_config_frame(4) [OF save_resolvable [OF assms]]
  by (simp add: write_yaml_to_file_def emit_def)

lemma get_config_after_save:
  assumes "save x w self = Inr (w', self')" and "level_path x self (level self) = Some path"
    and "runner_slug other = runner_slug self" and "game_config_id other = game_config_id self"
    and "files w'' = files w'"
  shows "get_config x w'' other (level self) = strip_falsy (level_dict self (level self))"
proof -
  have "level_path x other (level self) = Some path"
    using assms(2) level_path_ids [OF assms(3,4), of x] by simp
  then show ?thesis
    using files_after_save [OF assms(1,2)] assms(5)
    by (simp add: get_config_level_path read_yaml_from_file_def)
qed

text \<open>
  The raw layers are updated with what is read, not replaced by it: an entry of the raw
  layer of the current level whose value is not \<^verbatim>\<open>None\<close> is still in that layer after a save,
  whether or not it was written.
\<close>

lemma save_keeps_in_memory_entries:
  assumes "save x w self = Inr (w', self')" and "level_path x self (level self) = Some path"
    and "fmlookup (level_dict self (level self)) k = Some v" and "v \<noteq> VNone"
  shows "fmlookup (level_dict self' (level self')) k = Some v"
proof -
  let ?L = "level_dict self (level self)"
  let ?w = "write_yaml_to_file x (strip_falsy ?L) path
              (emit (Debug_saving (level self) (game_config_id self) (runner_slug self) path) w)"
  note i = save_resolvable [OF assms(1,2)]
  have "fmlookup (strip_falsy ?L) k = None \<or> fmlookup (strip_falsy ?L) k = Some v"
    using assms(3) by (simp add: fmlookup_strip_falsy)
  then have "fmlookup (?L ++\<^sub>f get_config x ?w self (level self)) k = Some v"
    using assms(3) get_config_after_save [OF assms(1,2) refl refl, of ?w]
      initialize_config_frame(4) [OF i]
    by (auto simp: fmlookup_dom_iff)
  then have "fmlookup (level_dict self' (level self)) k = Some v"
    using initialize_config_keeps_entries [OF i _ assms(4)] by blast
  then show ?thesis
    using initialize_config_frame(1) [OF i] by simp
qed

text \<open>
  Above System level \<^verbatim>\<open>update_raw_config\<close> reads the section named by the runner identifier,
  so no call of \<^verbatim>\<open>initialize_config\<close> returns there without one. In particular the
  constructor never returns for a game-config identifier given alone.
\<close>

lemma initialize_config_needs_runner_slug:
  assumes "initialize_config x w self = Inr r" and "level self \<noteq> SYSTEM"
  shows "runner_slug self \<noteq> None"
proof -
  obtain w' self' where "r = (w', self')" by (cases r)
  with assms(1) obtain s1 where
    u: "update_cascaded_config x w (loaded x w self) = Inr (w', s1)" and
    v: "update_raw_config s1 = Inr self'"
    by (auto elim: initialize_config_split)
  have "level s1 \<noteq> SYSTEM" "runner_slug s1 = runner_slug self"
    using update_cascaded_config_frame(1,2) [OF u] assms(2) by simp_all
  then show ?thesis
    using update_raw_config_Inr(3) [OF v] by auto
qed

lemma init_with_game_id_only_never_returns:
  assumes "gid \<noteq> []"
  shows "LutrisConfig_init x w None (Some gid) None \<noteq> Inr r"
proof
  assume "LutrisConfig_init x w None (Some gid) None = Inr r"
  then show False
    using assms
    by (auto simp: LutrisConfig_init_def dest!: initialize_config_needs_runner_slug)
qed

subsection \<open>Paths, locations and removal\<close>

lemma split_path_not_Nil [simp]: "split_path p \<noteq> []"
  by (induction p) (auto split: list.splits)

lemma split_path_append: "split_path (a @ CHR ''/'' # b) = split_path a @ split_path b"
  by (induction a) (auto split: list.splits)

lemma split_path_plain: "CHR ''/'' \<notin> set a \<Longrightarrow> split_path a = [a]"
  by (induction a) auto

lemma walk_empty [simp]: "walk loc [] = loc"
  by (simp add: walk_def)

lemma walk_name:
  "name \<noteq> [] \<Longrightarrow> name \<noteq> ''.'' \<Longrightarrow> name \<noteq> ''..'' \<Longrightarrow> walk loc name = loc @ [name]"
  by (simp add: walk_def)

lemma walk_yml: "walk loc (s @ ''.yml'') = loc @ [s @ ''.yml'']"
proof (rule walk_name)
  show "s @ ''.yml'' \<noteq> []" by simp
  show "s @ ''.yml'' \<noteq> ''.''"
  proof
    assume "s @ ''.yml'' = ''.''"
    then have "length (s @ ''.yml'') = length ''.''" by (rule arg_cong)
    then show False by simp
  qed
  show "s @ ''.yml'' \<noteq> ''..''"
  proof
    assume "s @ ''.yml'' = ''..''"
    then have "length (s @ ''.yml'') = length ''..''" by (rule arg_cong)
    then show False by simp
  qed
qed

text \<open>
  Joining a relative path to a directory and resolving the result is walking the
  components of the relative path from the location of the directory.
\<close>

lemma locate_path_join:
  assumes "b \<noteq> []" and "hd b \<noteq> CHR ''/''"
  shows "locate x (path_join a b) = foldl walk (locate x a) (split_path b)"
proof -
  consider (empty) "a = []" | (slash) "a \<noteq> []" "last a = CHR ''/''"
    | (other) "a \<noteq> []" "last a \<noteq> CHR ''/''" by blast
  then show ?thesis
  proof cases
    case empty
    then show ?thesis
      using assms by (simp add: path_join_def locate_def)
  next
    case slash
    then obtain a' where a: "a = a' @ [CHR ''/'']"
      by (metis append_butlast_last_id)
    let ?start = "if hd a = CHR ''/'' then [] else cwd x"
    have j: "path_join a b = a' @ CHR ''/'' # b"
      using assms by (simp add: path_join_def a)
    have h: "hd (a' @ CHR ''/'' # b) = hd a"
      by (cases a') (simp_all add: a)
    have "split_path a = split_path a' @ [[]]"
      using split_path_append [of a' "[]"] by (simp add: a)
    then have l: "locate x a = foldl walk ?start (split_path a')"
      using slash(1) by (simp add: locate_def)
    have "locate x (path_join a b)
            = foldl walk (foldl walk ?start (split_path a')) (split_path b)"
      unfolding j by (simp add: locate_def h split_path_append)
    then show ?thesis
      by (simp only: l)
  next
    case other
    have j: "path_join a b = a @ CHR ''/'' # b"
      using assms other by (simp add: path_join_def)
    show ?thesis
      using other(1) by (simp add: j locate_def split_path_append)
  qed
qed

lemma locate_system_config_path:
  "locate x (path_join (CONFIG_DIR x) ''system.yml'')
     = locate x (CONFIG_DIR x) @ [''system.yml'']"
  by (simp add: locate_path_join walk_def)

lemma locate_games_directory:
  "locate x (path_join (CONFIG_DIR x) ''games'') = locate x (CONFIG_DIR x) @ [''games'']"
  by (simp add: locate_path_join walk_def)

lemma locate_game_config_path:
  assumes "CHR ''/'' \<notin> set gid"
  shows "locate x (path_join (CONFIG_DIR x) (''games/'' @ gid @ ''.yml''))
           = locate x (CONFIG_DIR x) @ [''games'', gid @ ''.yml'']"
proof -
  have "''games/'' @ gid @ ''.yml'' = ''games'' @ CHR ''/'' # (gid @ ''.yml'')" by simp
  then have "split_path (''games/'' @ gid @ ''.yml'')
               = split_path ''games'' @ split_path (gid @ ''.yml'')"
    by (simp only: split_path_append)
  moreover have "split_path (gid @ ''.yml'') = [gid @ ''.yml'']"
    using assms by (intro split_path_plain) simp
  moreover have "split_path ''games'' = [''games'']"
    by (intro split_path_plain) simp
  ultimately have "split_path (''games/'' @ gid @ ''.yml'') = [''games'', gid @ ''.yml'']"
    by simp
  moreover have "walk loc ''games'' = loc @ [''games'']" for loc
    by (simp add: walk_def)
  ultimately show ?thesis
    by (simp add: locate_path_join walk_yml)
qed

lemma locate_runner_config_path:
  assumes "slug \<noteq> []" and "CHR ''/'' \<notin> set slug"
  shows "locate x (path_join (RUNNERS_CONFIG_DIR x) (slug @ ''.yml''))
           = locate x (RUNNERS_CONFIG_DIR x) @ [slug @ ''.yml'']"
proof -
  have "hd (slug @ ''.yml'') \<noteq> CHR ''/''"
    using assms by (cases slug) auto
  moreover have "split_path (slug @ ''.yml'') = [slug @ ''.yml'']"
    using assms(2) by (intro split_path_plain) simp
  ultimately show ?thesis
    by (simp add: locate_path_join walk_yml)
qed

lemma system_location:
  "system_config_path x self = Some sp \<Longrightarrow>
   locate x sp = locate x (CONFIG_DIR x) @ [''system.yml'']"
  by (auto simp: system_config_path_def locate_system_config_path)

lemma game_location:
  assumes "game_config_path x self = Some p" and "plain_id (game_config_id self)"
  shows "\<exists>gid. game_config_id self = Some gid \<and>
           locate x p = locate x (CONFIG_DIR x) @ [''games'', gid @ ''.yml'']"
proof -
  from assms(1) obtain gid where
    g: "game_config_id self = Some gid" and
    p: "p = path_join (CONFIG_DIR x) (''games/'' @ gid @ ''.yml'')"
    by (auto simp: game_config_path_def split: option.splits if_splits)
  have "CHR ''/'' \<notin> set gid"
    using assms(2) g by (simp add: plain_id_def)
  from locate_game_config_path [OF this, of x] show ?thesis
    using g p by simp
qed

lemma runner_location:
  assumes "runner_config_path x self = Some p" and "plain_id (runner_slug self)"
  shows "\<exists>slug. runner_slug self = Some slug \<and>
           locate x p = locate x (RUNNERS_CONFIG_DIR x) @ [slug @ ''.yml'']"
  using assms
  by (auto simp: runner_config_path_def plain_id_def locate_runner_config_path
           split: option.splits if_splits)

text \<open>\<^verbatim>\<open>remove\<close> returns, for every resolver and every state of storage.\<close>

lemma remove_config_Inr:
  "remove_config x w self =
     Inr (if path_exists x w (game_config_path x self)
          then emit (Debug_removed_config (game_config_path x self))
                 (w\<lparr>files := (files w)(locate x (the (game_config_path x self)) := None)\<rparr>)
          else emit (Debug_no_config_file (game_config_path x self)) w)"
  by (auto simp: remove_config_def path_exists_def os_remove_def split: option.splits)

lemma files_remove_config:
  assumes "remove_config x w self = Inr w'"
  shows "files w' =
     (case game_config_path x self of
        None \<Rightarrow> files w
      | Some p \<Rightarrow> (files w)(locate x p := None))"
  using assms
  by (auto simp: remove_config_Inr path_exists_def emit_def fun_eq_iff
           split: option.splits if_splits)

lemma remove_config_elsewhere:
  assumes "remove_config x w self = Inr w'"
    and "\<And>p. game_config_path x self = Some p \<Longrightarrow> locate x p \<noteq> l"
  shows "files w' l = files w l"
  using assms(2) by (auto simp: files_remove_config [OF assms(1)] split: option.splits)

lemma log_remove_config:
  assumes "remove_config x w self = Inr w'"
  shows "log_records w' = log_records w @
     [if path_exists x w (game_config_path x self)
      then Debug_removed_config (game_config_path x self)
      else Debug_no_config_file (game_config_path x self)]"
  using assms by (auto simp: remove_config_Inr emit_def split: if_splits)

subsection \<open>The concrete resolvers\<close>

text \<open>The concrete resolvers are what the constructor returns.\<close>

lemma example_game_without_id_constructed:
  "LutrisConfig_init example_ext empty_world (Some ''wine'') None (Some GAME) =
     Inr (empty_world\<lparr>log_records := [Exception_default ''locale'' (OtherError ''no locale'')]\<rparr>,
          example_game_without_id)"
  by (simp add: eval_defs example_defs)

lemma example_system_constructed:
  "LutrisConfig_init example_ext empty_world None None None =
     Inr (empty_world\<lparr>log_records := [Exception_default ''locale'' (OtherError ''no locale'')]\<rparr>,
          example_system)"
  by (simp add: eval_defs example_defs)

lemma example_quake_constructed:
  "LutrisConfig_init example_ext example_world (Some ''wine'') (Some ''quake-1'') None =
     Inr (example_world\<lparr>log_records := [Exception_default ''locale'' (OtherError ''no locale'')]\<rparr>,
          example_quake)"
  by (simp add: eval_defs example_defs)

lemma example_legacy_constructed:
  "LutrisConfig_init example_ext legacy_world (Some ''wine'') (Some ''quake-1'') None =
     Inr (legacy_world\<lparr>log_records := [Exception_default ''locale'' (OtherError ''no locale'')]\<rparr>,
          example_legacy)"
  by (simp add: eval_defs example_defs example_legacy_def legacy_world_def)

section \<open>The claims\<close>

subsection \<open>The env entry when cascading\<close>

text \<open>
  C1. The env scenario, run on the code: a Game-level resolver for the runner \<open>wine\<close>,
  where the system resource has env \<open>{A: 1}\<close> and the runner resource has env \<open>{B: 2}\<close>.
  Construction succeeds and the cascaded \<^verbatim>\<open>system_config\<close> holds env \<open>{B: 2}\<close>, not
  \<open>{A: 1, B: 2}\<close>: after \<^verbatim>\<open>merge_env\<close> has combined the two mappings,
  \<^verbatim>\<open>merge_to_system_config\<close> updates \<^verbatim>\<open>system_config\<close> with the whole section, env included
  (the general fact is \<open>merge_to_system_config_Inr\<close>).
\<close>

theorem env_merge_is_overwritten:
  "\<exists>w self.
     LutrisConfig_init example_ext env_world (Some ''wine'') (Some ''quake-1'') None = Inr (w, self) \<and>
     level self = GAME \<and>
     fmlookup (system_config self) ''env'' = Some (VDict (fmupd ''B'' (VStr ''2'') fmempty)) \<and>
     fmlookup (system_config self) ''env''
       \<noteq> Some (VDict (fmupd ''A'' (VStr ''1'') (fmupd ''B'' (VStr ''2'') fmempty)))"
proof -
  have ne: "fmupd ''B'' (VStr ''2'') fmempty \<noteq> fmupd ''A'' (VStr ''1'') (fmupd ''B'' (VStr ''2'') fmempty)"
  proof
    assume "fmupd ''B'' (VStr ''2'') fmempty = fmupd ''A'' (VStr ''1'') (fmupd ''B'' (VStr ''2'') fmempty)"
    then have "fmlookup (fmupd ''B'' (VStr ''2'') fmempty) ''A''
             = fmlookup (fmupd ''A'' (VStr ''1'') (fmupd ''B'' (VStr ''2'') fmempty)) ''A''"
      by simp
    then show False by simp
  qed
  show ?thesis
    using ne by (simp add: eval_defs env_world_def)
qed

subsection \<open>The in-memory raw layer after a save\<close>

text \<open>
  C2, run on the code. The stored document of the game \<open>quake-1\<close> has, beside its game
  section, an empty section \<open>dosbox\<close> of another runner. A Game-level resolver is
  constructed for that game and the runner \<open>wine\<close>, and saved. \<^verbatim>\<open>save\<close> strips the falsy
  entry \<open>dosbox\<close>: the document it writes, which \<^verbatim>\<open>get_config\<close> reads back for the game
  level, has the game section and no key \<open>dosbox\<close>. The reloaded in-memory raw layer, and
  \<^verbatim>\<open>raw_config\<close>, still have the key \<open>dosbox\<close>: \<^verbatim>\<open>initialize_config\<close> updates the
  dictionaries that the constructor made with what it reads and never empties them. The
  section \<open>dosbox\<close> is not one that \<^verbatim>\<open>update_cascaded_config\<close> consults, so the cascade did
  not re-create it; it is retained from the state before the save. (For every entry
  other than \<^verbatim>\<open>None\<close> of every resolver: \<open>save_keeps_in_memory_entries\<close>.)
\<close>

theorem save_retains_stripped_key_in_memory:
  "\<exists>w self w' self'.
     LutrisConfig_init example_ext legacy_world (Some ''wine'') (Some ''quake-1'') None
       = Inr (w, self) \<and>
     level self = GAME \<and>
     level_path example_ext self (level self) = Some ''/cfg/games/quake-1.yml'' \<and>
     fmlookup (level_dict self (level self)) ''dosbox'' = Some (VDict fmempty) \<and>
     \<not> truthy (VDict fmempty) \<and>
     \<not> consulted self GAME ''dosbox'' \<and>
     save example_ext w self = Inr (w', self') \<and>
     fmlookup (get_config example_ext w' self' (level self')) ''game''
       = Some (VDict (fmupd ''exe'' (VStr ''q'') fmempty)) \<and>
     fmlookup (get_config example_ext w' self' (level self')) ''dosbox'' = None \<and>
     fmlookup (level_dict self' (level self')) ''dosbox'' = Some (VDict fmempty) \<and>
     fmlookup (raw_config self') ''dosbox'' = Some (VDict fmempty)"
  by (simp add: example_legacy_constructed)
     (simp add: save_def example_legacy_def example_defs legacy_world_def eval_defs
        strip_falsy_def write_yaml_to_file_def emit_def)

subsection \<open>Construction with a game-config identifier and no runner identifier\<close>

text \<open>
  C3. The constructor, called with the game-config identifier of a stored game and no
  runner identifier, raises \<^verbatim>\<open>KeyError\<close>: the cascade consults no section of the game
  layer when the runner identifier is missing, and \<^verbatim>\<open>update_raw_config\<close> then reads the
  sections \<open>system\<close> and \<^verbatim>\<open>None\<close> of the game layer.
\<close>

theorem init_with_game_id_only_raises:
  "LutrisConfig_init example_ext example_world None (Some ''quake-1'') None = Inl KeyError"
  by (simp add: eval_defs example_world_def)

subsection \<open>Round trip through storage\<close>

text \<open>
  C4, as stated, fails. A falsy entry set in a section is not dropped on save: the
  System-level resolver on empty storage whose raw system section holds \<open>False\<close> for
  \<open>vsync\<close> is saved; a fresh System-level resolver then reads a document whose system
  section holds \<open>False\<close> for \<open>vsync\<close>, and its system view holds \<open>False\<close> for \<open>vsync\<close>, where
  the default is \<open>True\<close>. And the round trip is not there for any identifier: after the
  Game-level resolver for the runner \<open>wine\<close> and the game \<open>quake-1\<close> has been saved, the
  construction of a resolver for the game-config identifier \<open>quake-1\<close> alone raises
  \<^verbatim>\<open>KeyError\<close>.
\<close>

theorem falsy_option_value_is_not_dropped:
  "fmlookup (level_dict example_system_edited (level example_system_edited)) ''system''
     = Some (VDict (fmupd ''vsync'' (VBool False) fmempty)) \<and>
   \<not> truthy (VBool False) \<and>
   \<not> isl (save example_ext empty_world example_system_edited) \<and>
   \<not> isl (LutrisConfig_init example_ext
            (fst (projr (save example_ext empty_world example_system_edited)))
            None None (Some SYSTEM)) \<and>
   fmlookup
     (get_config example_ext
        (fst (projr (save example_ext empty_world example_system_edited)))
        (snd (projr (LutrisConfig_init example_ext
                       (fst (projr (save example_ext empty_world example_system_edited)))
                       None None (Some SYSTEM))))
        SYSTEM) ''system''
     = Some (VDict (fmupd ''vsync'' (VBool False) fmempty)) \<and>
   fmlookup
     (system_config
        (snd (projr (LutrisConfig_init example_ext
                       (fst (projr (save example_ext empty_world example_system_edited)))
                       None None (Some SYSTEM))))) ''vsync''
     = Some (VBool False) \<and>
   fmlookup (fst (get_defaults example_ext example_system_edited SYSTEM)) ''vsync''
     = Some (VBool True) \<and>
   \<not> isl (save example_ext example_world example_quake_edited) \<and>
   LutrisConfig_init example_ext
     (fst (projr (save example_ext example_world example_quake_edited)))
     None (Some ''quake-1'') None = Inl KeyError"
  by (simp add: save_def example_system_edited_def example_quake_edited_def example_defs
        eval_defs strip_falsy_def write_yaml_to_file_def emit_def)

text \<open>
  C4, amended. Let a resolver with a resolvable path, at System level or with a non-empty
  runner identifier, hold the value \<open>v\<close> for the option \<open>k\<close> in a section of the raw layer of
  its current level. When \<^verbatim>\<open>save\<close> returns and a fresh resolver is then constructed with
  the same runner identifier, game-config identifier and level, the cascaded view of that
  section holds \<open>v\<close> for \<open>k\<close>, whatever the value \<open>v\<close>, falsy or not. What \<^verbatim>\<open>save\<close> drops are the
  falsy entries of the raw layer itself (a section that is empty or \<^verbatim>\<open>None\<close>): the
  document that the fresh resolver reads for its level is the raw layer stripped of
  these, and in the raw layer of the fresh resolver a dropped entry is an empty mapping
  if it is a section that the cascade consults, and absent otherwise.
\<close>

theorem round_trip_keeps_values_and_drops_falsy_sections:
  assumes sv: "save x w self = Inr (w', self')"
    and path: "level_path x self (level self) = Some path"
    and lev: "level self = SYSTEM \<or> truthy_id (runner_slug self)"
    and kinds: "level self = SYSTEM \<longrightarrow> kind = SYSTEM" "level self = RUNNER \<longrightarrow> kind \<noteq> GAME"
    and sk: "section_key self kind = Some sec"
    and sec: "fmlookup (level_dict self (level self)) sec = Some (VDict m)"
    and k: "fmlookup m k = Some v"
    and fr: "LutrisConfig_init x w' (runner_slug self) (game_config_id self) (Some (level self))
               = Inr (w'', fresh)"
  shows "fmlookup (cascaded_view fresh kind) k = Some v \<and>
         get_config x w'' fresh (level fresh) = strip_falsy (level_dict self (level self)) \<and>
         (\<forall>key. \<not> truthy (dict_get (level_dict self (level self)) key) \<longrightarrow>
            fmlookup (get_config x w'' fresh (level fresh)) key = None \<and>
            fmlookup (level_dict fresh (level fresh)) key =
              (if consulted fresh (level fresh) key then Some (VDict fmempty) else None))"
proof -
  define init where "init =
       \<lparr>game_config_id = game_config_id self,
        runner_slug = runner_slug self,
        level = level self,
        game_level = fmempty, runner_level = fmempty, system_level = fmempty,
        game_config = fmempty, runner_config = fmempty, system_config = fmempty,
        raw_game_config = VDict fmempty, raw_runner_config = VDict fmempty,
        raw_system_config = VDict fmempty,
        raw_config = fmempty\<rparr>"
  have ids: "level init = level self" "runner_slug init = runner_slug self"
    "game_config_id init = game_config_id self"
    and empty: "level_dict init t = fmempty" for t
    by (cases t; simp add: init_def)+
  from fr have i: "initialize_config x w' init = Inr (w'', fresh)"
    by (simp add: LutrisConfig_init_def init_def)
  then obtain s1 where
    u: "update_cascaded_config x w' (loaded x w' init) = Inr (w'', s1)" and
    r: "update_raw_config s1 = Inr fresh"
    by (rule initialize_config_split)
  note f = initialize_config_frame [OF i]
  let ?L = "level_dict self (level self)"
  have g: "get_config x w' init (level self) = strip_falsy ?L"
    by (rule get_config_after_save [OF sv path ids(2,3) refl])
  then have ld: "level_dict (loaded x w' init) (level (loaded x w' init)) = strip_falsy ?L"
    by (simp add: ids empty)
  have "m \<noteq> fmempty" using k by auto
  then have st: "fmlookup (strip_falsy ?L) sec = Some (VDict m)"
    using sec by (simp add: fmlookup_strip_falsy dict_get_def)
  have "fmlookup (cascaded_view s1 kind) k = Some v"
  proof (rule cascade_shows_current_layer [OF u _ _ _ _ _ k])
    show "level (loaded x w' init) = SYSTEM \<or> truthy_id (runner_slug (loaded x w' init))"
      using lev by (simp add: ids)
    show "level (loaded x w' init) = SYSTEM \<longrightarrow> kind = SYSTEM"
      using kinds(1) by (simp add: ids)
    show "level (loaded x w' init) = RUNNER \<longrightarrow> kind \<noteq> GAME"
      using kinds(2) by (simp add: ids)
    show "section_key (loaded x w' init) kind = Some sec"
      using sk by (cases kind) (simp_all add: ids)
    show "fmlookup (level_dict (loaded x w' init) (level (loaded x w' init))) sec = Some (VDict m)"
      using st by (simp only: ld)
  qed
  then have A: "fmlookup (cascaded_view fresh kind) k = Some v"
    by (simp add: update_raw_config_views [OF r])
  have fl: "level fresh = level self" "runner_slug fresh = runner_slug self"
    "game_config_id fresh = game_config_id self"
    using f(1,2,3) ids by simp_all
  have B: "get_config x w'' fresh (level fresh) = strip_falsy ?L"
    using get_config_after_save [OF sv path fl(2,3) f(4)] fl(1) by simp
  from update_raw_config_Inr(1) [OF r] obtain a b c where
    s: "fresh = s1\<lparr>raw_system_config := a, raw_runner_config := b, raw_game_config := c,
                    raw_config := level_dict s1 (level s1)\<rparr>" by blast
  have l: "level_dict fresh t = level_dict s1 t" for t by (subst s) (cases t; simp)
  have cons: "consulted (loaded x w' init) t key = consulted fresh t key" for t key
    by (cases t) (simp_all add: ids fl)
  have C: "fmlookup (get_config x w'' fresh (level fresh)) key = None \<and>
           fmlookup (level_dict fresh (level fresh)) key =
             (if consulted fresh (level fresh) key then Some (VDict fmempty) else None)"
    if falsy: "\<not> truthy (dict_get ?L key)" for key
  proof
    have n: "fmlookup (strip_falsy ?L) key = None"
      using falsy by (simp add: fmlookup_strip_falsy)
    then show "fmlookup (get_config x w'' fresh (level fresh)) key = None"
      by (simp only: B)
    have ln: "fmlookup (level_dict (loaded x w' init) (level self)) key = None"
      using n ld by (simp add: ids)
    show "fmlookup (level_dict fresh (level fresh)) key =
             (if consulted fresh (level fresh) key then Some (VDict fmempty) else None)"
    proof (cases "consulted fresh (level fresh) key")
      case True
      then have "consulted (loaded x w' init) (level self) key"
        using cons fl(1) by simp
      from cascade_inserts_sections_aux [OF u this] ln True show ?thesis
        by (simp add: l fl(1) dict_get_def del: loaded_fields)
    next
      case False
      then have "\<not> consulted (loaded x w' init) (level self) key"
        using cons fl(1) by simp
      from cascade_keeps_other_keys [OF u this] ln False show ?thesis
        by (simp add: l fl(1) del: loaded_fields)
    qed
  qed
  from A B C show ?thesis by blast
qed

theorem round_trip_keeps_values_and_drops_falsy_sections_witness:
  "(\<exists>w' self' w'' fresh.
     save example_ext legacy_world example_legacy = Inr (w', self') \<and>
     level_path example_ext example_legacy (level example_legacy)
       = Some ''/cfg/games/quake-1.yml'' \<and>
     truthy_id (runner_slug example_legacy) \<and>
     section_key example_legacy GAME = Some ''game'' \<and>
     fmlookup (level_dict example_legacy (level example_legacy)) ''game''
       = Some (VDict (fmupd ''exe'' (VStr ''q'') fmempty)) \<and>
     LutrisConfig_init example_ext w' (runner_slug example_legacy)
       (game_config_id example_legacy) (Some (level example_legacy))
       = Inr (w'', fresh) \<and>
     fmlookup (cascaded_view fresh GAME) ''exe'' = Some (VStr ''q'') \<and>
     \<not> truthy (dict_get (level_dict example_legacy (level example_legacy)) ''wine'') \<and>
     \<not> truthy (dict_get (level_dict example_legacy (level example_legacy)) ''dosbox'') \<and>
     consulted fresh (level fresh) ''wine'' \<and>
     \<not> consulted fresh (level fresh) ''dosbox'' \<and>
     fmlookup (get_config example_ext w'' fresh (level fresh)) ''wine'' = None \<and>
     fmlookup (get_config example_ext w'' fresh (level fresh)) ''dosbox'' = None \<and>
     fmlookup (level_dict fresh (level fresh)) ''wine'' = Some (VDict fmempty) \<and>
     fmlookup (level_dict fresh (level fresh)) ''dosbox'' = None) \<and>
   (\<exists>w' self' w'' fresh.
     save example_ext empty_world example_system_edited = Inr (w', self') \<and>
     level_path example_ext example_system_edited (level example_system_edited)
       = Some ''/cfg/system.yml'' \<and>
     level example_system_edited = SYSTEM \<and>
     section_key example_system_edited SYSTEM = Some ''system'' \<and>
     fmlookup (level_dict example_system_edited (level example_system_edited)) ''system''
       = Some (VDict (fmupd ''vsync'' (VBool False) fmempty)) \<and>
     \<not> truthy (VBool False) \<and>
     LutrisConfig_init example_ext w' (runner_slug example_system_edited)
       (game_config_id example_system_edited) (Some (level example_system_edited))
       = Inr (w'', fresh) \<and>
     fmlookup (cascaded_view fresh SYSTEM) ''vsync'' = Some (VBool False))"
proof
  have p: "level_path example_ext example_legacy (level example_legacy)
       = Some ''/cfg/games/quake-1.yml''"
    by (simp add: example_legacy_def example_defs game_config_path_def path_join_def
          example_ext_def)
  have l: "level example_legacy = SYSTEM \<or> truthy_id (runner_slug example_legacy)"
    "level example_legacy = SYSTEM \<longrightarrow> GAME = SYSTEM"
    "level example_legacy = RUNNER \<longrightarrow> GAME \<noteq> GAME"
    "section_key example_legacy GAME = Some ''game''"
    "fmlookup (level_dict example_legacy (level example_legacy)) ''game''
       = Some (VDict (fmupd ''exe'' (VStr ''q'') fmempty))"
    "fmlookup (fmupd ''exe'' (VStr ''q'') fmempty) ''exe'' = Some (VStr ''q'')"
    and ids: "level example_legacy = GAME" "runner_slug example_legacy = Some ''wine''"
    and falsy: "\<not> truthy (dict_get (level_dict example_legacy (level example_legacy)) ''wine'')"
      "\<not> truthy (dict_get (level_dict example_legacy (level example_legacy)) ''dosbox'')"
    by (simp_all add: example_legacy_def example_defs dict_get_def)
  have "\<exists>w' self' w'' fresh.
     save example_ext legacy_world example_legacy = Inr (w', self') \<and>
     LutrisConfig_init example_ext w' (runner_slug example_legacy)
       (game_config_id example_legacy) (Some (level example_legacy))
       = Inr (w'', fresh)"
    by (simp add: save_def example_legacy_def example_defs legacy_world_def eval_defs
          strip_falsy_def write_yaml_to_file_def emit_def)
  then obtain w' self' w'' fresh where
    e: "save example_ext legacy_world example_legacy = Inr (w', self')" and
    f: "LutrisConfig_init example_ext w' (runner_slug example_legacy)
       (game_config_id example_legacy) (Some (level example_legacy))
       = Inr (w'', fresh)" by blast
  from f have "initialize_config example_ext w'
       \<lparr>game_config_id = game_config_id example_legacy,
        runner_slug = runner_slug example_legacy,
        level = level example_legacy,
        game_level = fmempty, runner_level = fmempty, system_level = fmempty,
        game_config = fmempty, runner_config = fmempty, system_config = fmempty,
        raw_game_config = VDict fmempty, raw_runner_config = VDict fmempty,
        raw_system_config = VDict fmempty,
        raw_config = fmempty\<rparr> = Inr (w'', fresh)"
    by (simp add: LutrisConfig_init_def)
  from initialize_config_frame(1,2) [OF this]
  have fi: "level fresh = GAME" "runner_slug fresh = Some ''wine''"
    using ids by simp_all
  then have c: "consulted fresh (level fresh) ''wine''" "\<not> consulted fresh (level fresh) ''dosbox''"
    by simp_all
  note t = round_trip_keeps_values_and_drops_falsy_sections [OF e p l f]
  from t have t3: "\<forall>key. \<not> truthy (dict_get (level_dict example_legacy (level example_legacy)) key) \<longrightarrow>
            fmlookup (get_config example_ext w'' fresh (level fresh)) key = None \<and>
            fmlookup (level_dict fresh (level fresh)) key =
              (if consulted fresh (level fresh) key then Some (VDict fmempty) else None)"
    by (elim conjE)
  have w: "fmlookup (get_config example_ext w'' fresh (level fresh)) ''wine'' = None"
    "fmlookup (level_dict fresh (level fresh)) ''wine'' = Some (VDict fmempty)"
    using t3 [rule_format, OF falsy(1)] c(1) by simp_all
  have d: "fmlookup (get_config example_ext w'' fresh (level fresh)) ''dosbox'' = None"
    "fmlookup (level_dict fresh (level fresh)) ''dosbox'' = None"
    using t3 [rule_format, OF falsy(2)] c(2) by simp_all
  from t have v: "fmlookup (cascaded_view fresh GAME) ''exe'' = Some (VStr ''q'')"
    by (elim conjE)
  have ti: "truthy_id (runner_slug example_legacy)" using ids by simp
  from e p ti l(4,5) f v falsy c w d
  show "\<exists>w' self' w'' fresh.
     save example_ext legacy_world example_legacy = Inr (w', self') \<and>
     level_path example_ext example_legacy (level example_legacy)
       = Some ''/cfg/games/quake-1.yml'' \<and>
     truthy_id (runner_slug example_legacy) \<and>
     section_key example_legacy GAME = Some ''game'' \<and>
     fmlookup (level_dict example_legacy (level example_legacy)) ''game''
       = Some (VDict (fmupd ''exe'' (VStr ''q'') fmempty)) \<and>
     LutrisConfig_init example_ext w' (runner_slug example_legacy)
       (game_config_id example_legacy) (Some (level example_legacy))
       = Inr (w'', fresh) \<and>
     fmlookup (cascaded_view fresh GAME) ''exe'' = Some (VStr ''q'') \<and>
     \<not> truthy (dict_get (level_dict example_legacy (level example_legacy)) ''wine'') \<and>
     \<not> truthy (dict_get (level_dict example_legacy (level example_legacy)) ''dosbox'') \<and>
     consulted fresh (level fresh) ''wine'' \<and>
     \<not> consulted fresh (level fresh) ''dosbox'' \<and>
     fmlookup (get_config example_ext w'' fresh (level fresh)) ''wine'' = None \<and>
     fmlookup (get_config example_ext w'' fresh (level fresh)) ''dosbox'' = None \<and>
     fmlookup (level_dict fresh (level fresh)) ''wine'' = Some (VDict fmempty) \<and>
     fmlookup (level_dict fresh (level fresh)) ''dosbox'' = None"
    by blast
next
  have p: "level_path example_ext example_system_edited (level example_system_edited)
       = Some ''/cfg/system.yml''"
    by (simp add: example_system_edited_def example_defs system_config_path_def path_join_def
          example_ext_def)
  have l: "level example_system_edited = SYSTEM \<or> truthy_id (runner_slug example_system_edited)"
    "level example_system_edited = SYSTEM \<longrightarrow> SYSTEM = SYSTEM"
    "level example_system_edited = RUNNER \<longrightarrow> SYSTEM \<noteq> GAME"
    "section_key example_system_edited SYSTEM = Some ''system''"
    "fmlookup (level_dict example_system_edited (level example_system_edited)) ''system''
       = Some (VDict (fmupd ''vsync'' (VBool False) fmempty))"
    "fmlookup (fmupd ''vsync'' (VBool False) fmempty) ''vsync'' = Some (VBool False)"
    and ls: "level example_system_edited = SYSTEM"
    by (simp_all add: example_system_edited_def example_defs)
  have "\<exists>w' self' w'' fresh.
     save example_ext empty_world example_system_edited = Inr (w', self') \<and>
     LutrisConfig_init example_ext w' (runner_slug example_system_edited)
       (game_config_id example_system_edited) (Some (level example_system_edited))
       = Inr (w'', fresh)"
    by (simp add: save_def example_system_edited_def example_defs eval_defs strip_falsy_def
          write_yaml_to_file_def emit_def)
  then obtain w' self' w'' fresh where
    e: "save example_ext empty_world example_system_edited = Inr (w', self')" and
    f: "LutrisConfig_init example_ext w' (runner_slug example_system_edited)
       (game_config_id example_system_edited) (Some (level example_system_edited))
       = Inr (w'', fresh)" by blast
  from round_trip_keeps_values_and_drops_falsy_sections [OF e p l f]
  have v: "fmlookup (cascaded_view fresh SYSTEM) ''vsync'' = Some (VBool False)"
    by (elim conjE)
  have nt: "\<not> truthy (VBool False)" by simp
  from e p ls l(4,5) nt f v
  show "\<exists>w' self' w'' fresh.
     save example_ext empty_world example_system_edited = Inr (w', self') \<and>
     level_path example_ext example_system_edited (level example_system_edited)
       = Some ''/cfg/system.yml'' \<and>
     level example_system_edited = SYSTEM \<and>
     section_key example_system_edited SYSTEM = Some ''system'' \<and>
     fmlookup (level_dict example_system_edited (level example_system_edited)) ''system''
       = Some (VDict (fmupd ''vsync'' (VBool False) fmempty)) \<and>
     \<not> truthy (VBool False) \<and>
     LutrisConfig_init example_ext w' (runner_slug example_system_edited)
       (game_config_id example_system_edited) (Some (level example_system_edited))
       = Inr (w'', fresh) \<and>
     fmlookup (cascaded_view fresh SYSTEM) ''vsync'' = Some (VBool False)"
    by blast
qed

subsection \<open>Override precedence in the runner view\<close>

text \<open>
  C5. For a Game-level resolver with a runner identifier, after \<^verbatim>\<open>update_cascaded_config\<close>
  an option of the runner view resolves to the value in the runner section of the game
  raw layer when that section has the option, else to the value in the runner section of
  the runner raw layer, else to the default. In particular an option present in both
  layers resolves to the game layer's value.
\<close>

theorem game_layer_overrides_runner_layer:
  assumes "update_cascaded_config x w self = Inr (w', self')"
    and "level self = GAME" and "runner_slug self = Some slug" and "slug \<noteq> []"
    and "fmlookup (game_level self') slug = Some (VDict g)"
    and "fmlookup (runner_level self') slug = Some (VDict r)"
  shows "fmlookup (runner_config self') k =
           (case fmlookup g k of
              Some v \<Rightarrow> Some v
            | None \<Rightarrow> (case fmlookup r k of
                         Some v \<Rightarrow> Some v
                       | None \<Rightarrow> fmlookup (fst (get_defaults x self RUNNER)) k))"
proof -
  note s = update_cascaded_config_game(1) [OF assms(1-4)]
  have "runner_config self' =
          (fst (get_defaults x self RUNNER) ++\<^sub>f as_dict (dict_get (runner_level self') slug)) ++\<^sub>f
            as_dict (dict_get (game_level self') slug)"
    by (subst (1 2 3) s) simp
  then show ?thesis
    using assms(5,6)
    by (auto simp: dict_get_def as_dict_def fmlookup_dom_iff split: option.splits)
qed

theorem game_layer_overrides_runner_layer_witness:
  "\<exists>w' self'.
     update_cascaded_config example_ext override_world
       (loaded example_ext override_world example_quake) = Inr (w', self') \<and>
     fmlookup (game_level self') ''wine'' = Some (VDict (fmupd ''version'' (VStr ''game-build'') fmempty)) \<and>
     fmlookup (runner_level self') ''wine'' = Some (VDict (fmupd ''version'' (VStr ''runner-build'') fmempty)) \<and>
     fmlookup (runner_config self') ''version'' = Some (VStr ''game-build'')"
proof -
  let ?s = "loaded example_ext override_world example_quake"
  have l: "level ?s = GAME" "runner_slug ?s = Some ''wine''" "''wine'' \<noteq> []"
    by (simp_all add: example_defs)
  have "\<exists>r. update_cascaded_config example_ext override_world ?s = Inr r"
    by (simp add: eval_defs loaded_def example_defs)
  then obtain w' self' where
    e: "update_cascaded_config example_ext override_world ?s = Inr (w', self')" by auto
  note f = update_cascaded_config_frame [OF e]
  have g: "fmlookup (game_level self') ''wine'' = Some (VDict (fmupd ''version'' (VStr ''game-build'') fmempty))"
    using f(7) by (simp add: eval_defs loaded_def example_defs)
  have r: "fmlookup (runner_level self') ''wine'' = Some (VDict (fmupd ''version'' (VStr ''runner-build'') fmempty))"
    using f(6) by (simp add: eval_defs loaded_def example_defs)
  show ?thesis
    using e g r game_layer_overrides_runner_layer [OF e l g r, of "''version''"] by simp
qed

subsection \<open>Saving without a resolvable path\<close>

text \<open>
  C6. When the path of the current level cannot be resolved (Runner level without a
  runner identifier, Game level without a game-config identifier), \<^verbatim>\<open>save\<close> returns
  normally, logs one warning, leaves durable storage as it was and leaves the resolver
  unchanged.
\<close>

theorem save_unresolvable_path_is_noop:
  assumes "(level self = RUNNER \<and> \<not> truthy_id (runner_slug self)) \<or>
           (level self = GAME \<and> \<not> truthy_id (game_config_id self))"
  shows "\<exists>w'. save x w self = Inr (w', self) \<and> files w' = files w \<and>
               log_records w' = log_records w @ [Warning_cannot_save (level self)]"
proof -
  have "level_path x self (level self) = None"
    using assms
    by (auto simp: runner_config_path_def game_config_path_def
             split: option.splits elim: truthy_id.elims)
  then have "save x w self = Inr (emit (Warning_cannot_save (level self)) w, self)"
    by (simp add: save_def)
  then show ?thesis
    by (simp add: emit_def)
qed

theorem save_unresolvable_path_is_noop_witness:
  "level example_game_without_id = GAME \<and>
   \<not> truthy_id (game_config_id example_game_without_id) \<and>
   (\<exists>w'. save example_ext example_world example_game_without_id
            = Inr (w', example_game_without_id) \<and>
          files w' = files example_world \<and>
          log_records w' = log_records example_world @ [Warning_cannot_save GAME])"
  using save_unresolvable_path_is_noop [of example_game_without_id example_ext example_world]
  by (simp add: example_game_without_id_def)

subsection \<open>Saving strips falsy entries\<close>

text \<open>
  C7. When \<^verbatim>\<open>save\<close> returns on a resolver with a resolvable path, \<^verbatim>\<open>get_config\<close> for the
  current level reads exactly the raw layer as it was at the time of the save, stripped
  of its falsy entries; so no key whose in-memory value was falsy (or that was absent)
  occurs in it.
\<close>

theorem save_then_get_config_has_no_falsy_key:
  assumes "save x w self = Inr (w', self')"
    and "level_path x self (level self) = Some path"
  shows "get_config x w' self' (level self') = strip_falsy (level_dict self (level self)) \<and>
         (\<forall>k. \<not> truthy (dict_get (level_dict self (level self)) k) \<longrightarrow>
              fmlookup (get_config x w' self' (level self')) k = None)"
proof -
  note i = save_resolvable [OF assms]
  note f = initialize_config_frame [OF i]
  have "get_config x w' self' (level self') = strip_falsy (level_dict self (level self))"
    using get_config_after_save [OF assms f(2,3) refl] f(1) by simp
  then show ?thesis
    by (simp add: fmlookup_strip_falsy)
qed

theorem save_then_get_config_has_no_falsy_key_witness:
  "\<exists>w' self'.
     save example_ext example_world example_quake_edited = Inr (w', self') \<and>
     level_path example_ext example_quake_edited (level example_quake_edited)
       = Some ''/cfg/games/quake-1.yml'' \<and>
     fmlookup (level_dict example_quake_edited (level example_quake_edited)) ''wine''
       = Some (VDict fmempty) \<and>
     \<not> truthy (dict_get (level_dict example_quake_edited (level example_quake_edited)) ''wine'') \<and>
     fmlookup (get_config example_ext w' self' (level self')) ''wine'' = None \<and>
     fmlookup (get_config example_ext w' self' (level self')) ''game''
       = Some (VDict (fmupd ''exe'' (VStr ''q2'') fmempty))"
proof -
  have p: "level_path example_ext example_quake_edited (level example_quake_edited)
       = Some ''/cfg/games/quake-1.yml''"
    by (simp add: example_quake_edited_def example_defs game_config_path_def path_join_def
          example_ext_def)
  have "\<exists>r. save example_ext example_world example_quake_edited = Inr r"
    by (simp add: save_def example_quake_edited_def example_defs eval_defs strip_falsy_def
          write_yaml_to_file_def emit_def)
  then obtain w' self' where
    e: "save example_ext example_world example_quake_edited = Inr (w', self')" by auto
  show ?thesis
    using e p save_then_get_config_has_no_falsy_key [OF e p]
    by (simp add: example_quake_edited_def example_defs dict_get_def fmlookup_strip_falsy)
qed

subsection \<open>Removing the game resource\<close>

text \<open>
  C8, as stated, fails. A resolver is constructed for the runner \<open>wine\<close> and the
  game-config identifier \<^verbatim>\<open>../system\<close> on storage that holds the system document. Its game
  path, \<^verbatim>\<open>/cfg/games/../system.yml\<close>, names the file that the system path
  \<^verbatim>\<open>/cfg/system.yml\<close> names. \<^verbatim>\<open>remove\<close> finds that the file exists, deletes it and
  returns: the System-level resource is gone.
\<close>

theorem remove_deletes_system_resource:
  "\<not> isl (LutrisConfig_init example_ext example_world (Some ''wine'') (Some ''../system'') None) \<and>
   game_config_path example_ext
     (snd (projr (LutrisConfig_init example_ext example_world
                    (Some ''wine'') (Some ''../system'') None)))
     = Some ''/cfg/games/../system.yml'' \<and>
   system_config_path example_ext
     (snd (projr (LutrisConfig_init example_ext example_world
                    (Some ''wine'') (Some ''../system'') None)))
     = Some ''/cfg/system.yml'' \<and>
   locate example_ext ''/cfg/games/../system.yml'' = locate example_ext ''/cfg/system.yml'' \<and>
   path_exists example_ext
     (fst (projr (LutrisConfig_init example_ext example_world
                    (Some ''wine'') (Some ''../system'') None)))
     (Some ''/cfg/system.yml'') \<and>
   \<not> isl (remove_config example_ext
            (fst (projr (LutrisConfig_init example_ext example_world
                           (Some ''wine'') (Some ''../system'') None)))
            (snd (projr (LutrisConfig_init example_ext example_world
                           (Some ''wine'') (Some ''../system'') None)))) \<and>
   \<not> path_exists example_ext
     (projr (remove_config example_ext
        (fst (projr (LutrisConfig_init example_ext example_world
                       (Some ''wine'') (Some ''../system'') None)))
        (snd (projr (LutrisConfig_init example_ext example_world
                       (Some ''wine'') (Some ''../system'') None)))))
     (Some ''/cfg/system.yml'') \<and>
   read_yaml_from_file example_ext
     (projr (remove_config example_ext
        (fst (projr (LutrisConfig_init example_ext example_world
                       (Some ''wine'') (Some ''../system'') None)))
        (snd (projr (LutrisConfig_init example_ext example_world
                       (Some ''wine'') (Some ''../system'') None)))))
     (Some ''/cfg/system.yml'') = fmempty"
  by (simp add: eval_defs example_world_def remove_config_def path_exists_def os_remove_def
        emit_def)

text \<open>
  C8, amended. \<^verbatim>\<open>remove\<close> returns for every resolver and every state of storage, and logs
  exactly one record. It deletes the file that the game path of the resolver names, when
  there is one, and no other file; when no file exists there, storage is unchanged. When
  the game-config identifier contains no path separator, the files left untouched
  include the System-level resource, the Game-level resource of every other game-config
  identifier without a separator, and the Runner-level resource of every runner
  identifier without a separator, provided that the directory of the runner resources is
  not the directory of the game resources.
\<close>

theorem remove_config_deletes_only_file_of_game_path:
  "\<exists>w'. remove_config x w self = Inr w'
   \<and> files w' =
       (case game_config_path x self of
          None \<Rightarrow> files w
        | Some p \<Rightarrow> (files w)(locate x p := None))
   \<and> \<not> path_exists x w' (game_config_path x self)
   \<and> (\<not> path_exists x w (game_config_path x self) \<longrightarrow> files w' = files w)
   \<and> log_records w' = log_records w @
        [if path_exists x w (game_config_path x self)
         then Debug_removed_config (game_config_path x self)
         else Debug_no_config_file (game_config_path x self)]
   \<and> (plain_id (game_config_id self) \<longrightarrow>
        (\<forall>sp. system_config_path x other = Some sp \<longrightarrow>
           files w' (locate x sp) = files w (locate x sp)) \<and>
        (\<forall>gp. game_config_path x other = Some gp \<and> plain_id (game_config_id other) \<and>
              game_config_id other \<noteq> game_config_id self \<longrightarrow>
           files w' (locate x gp) = files w (locate x gp)) \<and>
        (\<forall>rp. runner_config_path x other = Some rp \<and> plain_id (runner_slug other) \<and>
              locate x (RUNNERS_CONFIG_DIR x) \<noteq> locate x (path_join (CONFIG_DIR x) ''games'') \<longrightarrow>
           files w' (locate x rp) = files w (locate x rp)))"
proof -
  obtain w' where r: "remove_config x w self = Inr w'"
    by (simp add: remove_config_Inr)
  note A = files_remove_config [OF r]
  have B: "\<not> path_exists x w' (game_config_path x self)"
    by (auto simp: A path_exists_def split: option.splits)
  have C: "\<not> path_exists x w (game_config_path x self) \<longrightarrow> files w' = files w"
    by (auto simp: A path_exists_def fun_eq_iff split: option.splits)
  note D = log_remove_config [OF r]
  have E: "plain_id (game_config_id self) \<longrightarrow>
        (\<forall>sp. system_config_path x other = Some sp \<longrightarrow>
           files w' (locate x sp) = files w (locate x sp)) \<and>
        (\<forall>gp. game_config_path x other = Some gp \<and> plain_id (game_config_id other) \<and>
              game_config_id other \<noteq> game_config_id self \<longrightarrow>
           files w' (locate x gp) = files w (locate x gp)) \<and>
        (\<forall>rp. runner_config_path x other = Some rp \<and> plain_id (runner_slug other) \<and>
              locate x (RUNNERS_CONFIG_DIR x) \<noteq> locate x (path_join (CONFIG_DIR x) ''games'') \<longrightarrow>
           files w' (locate x rp) = files w (locate x rp))"
  proof (intro conjI allI impI)
    fix sp
    assume plain: "plain_id (game_config_id self)"
      and sp: "system_config_path x other = Some sp"
    show "files w' (locate x sp) = files w (locate x sp)"
    proof (rule remove_config_elsewhere [OF r])
      fix p assume "game_config_path x self = Some p"
      from game_location [OF this plain] system_location [OF sp]
      show "locate x p \<noteq> locate x sp" by auto
    qed
  next
    fix gp
    assume plain: "plain_id (game_config_id self)"
      and gp: "game_config_path x other = Some gp \<and> plain_id (game_config_id other) \<and>
               game_config_id other \<noteq> game_config_id self"
    show "files w' (locate x gp) = files w (locate x gp)"
    proof (rule remove_config_elsewhere [OF r])
      fix p assume "game_config_path x self = Some p"
      from game_location [OF this plain] game_location [of x other gp] gp
      show "locate x p \<noteq> locate x gp" by auto
    qed
  next
    fix rp
    assume plain: "plain_id (game_config_id self)"
      and rp: "runner_config_path x other = Some rp \<and> plain_id (runner_slug other) \<and>
               locate x (RUNNERS_CONFIG_DIR x) \<noteq> locate x (path_join (CONFIG_DIR x) ''games'')"
    show "files w' (locate x rp) = files w (locate x rp)"
    proof (rule remove_config_elsewhere [OF r])
      fix p assume "game_config_path x self = Some p"
      from game_location [OF this plain] runner_location [of x other rp] rp
      show "locate x p \<noteq> locate x rp"
        by (auto simp: locate_games_directory)
    qed
  qed
  from r A B C D E show ?thesis
    by (intro exI [of _ w'] conjI)
qed

theorem remove_config_deletes_only_file_of_game_path_witness:
  "plain_id (game_config_id example_quake) \<and>
   plain_id (game_config_id example_doom) \<and>
   plain_id (runner_slug example_doom) \<and>
   game_config_id example_doom \<noteq> game_config_id example_quake \<and>
   locate example_ext (RUNNERS_CONFIG_DIR example_ext)
     \<noteq> locate example_ext (path_join (CONFIG_DIR example_ext) ''games'') \<and>
   system_config_path example_ext example_doom = Some ''/cfg/system.yml'' \<and>
   game_config_path example_ext example_doom = Some ''/cfg/games/doom-2.yml'' \<and>
   runner_config_path example_ext example_doom = Some ''/cfg/runners/wine.yml'' \<and>
   game_config_path example_ext example_quake = Some ''/cfg/games/quake-1.yml'' \<and>
   path_exists example_ext example_world (game_config_path example_ext example_quake) \<and>
   (\<exists>w'. remove_config example_ext example_world example_quake = Inr w' \<and>
      \<not> path_exists example_ext w' (game_config_path example_ext example_quake) \<and>
      files w' (locate example_ext ''/cfg/system.yml'')
        = files example_world (locate example_ext ''/cfg/system.yml'') \<and>
      files w' (locate example_ext ''/cfg/games/doom-2.yml'')
        = files example_world (locate example_ext ''/cfg/games/doom-2.yml'') \<and>
      files w' (locate example_ext ''/cfg/runners/wine.yml'')
        = files example_world (locate example_ext ''/cfg/runners/wine.yml'') \<and>
      log_records w' = [Debug_removed_config (Some ''/cfg/games/quake-1.yml'')]) \<and>
   \<not> path_exists example_ext example_world (game_config_path example_ext example_doom) \<and>
   (\<exists>w'. remove_config example_ext example_world example_doom = Inr w' \<and>
      files w' = files example_world \<and>
      log_records w' = [Debug_no_config_file (Some ''/cfg/games/doom-2.yml'')])"
proof -
  have h: "plain_id (game_config_id example_quake)"
    "plain_id (game_config_id example_doom)"
    "plain_id (runner_slug example_doom)"
    "game_config_id example_doom \<noteq> game_config_id example_quake"
    "locate example_ext (RUNNERS_CONFIG_DIR example_ext)
       \<noteq> locate example_ext (path_join (CONFIG_DIR example_ext) ''games'')"
    "system_config_path example_ext example_doom = Some ''/cfg/system.yml''"
    "game_config_path example_ext example_doom = Some ''/cfg/games/doom-2.yml''"
    "runner_config_path example_ext example_doom = Some ''/cfg/runners/wine.yml''"
    "game_config_path example_ext example_quake = Some ''/cfg/games/quake-1.yml''"
    "path_exists example_ext example_world (Some ''/cfg/games/quake-1.yml'')"
    "\<not> path_exists example_ext example_world (Some ''/cfg/games/doom-2.yml'')"
    "log_records example_world = []"
    by (simp_all add: plain_id_def example_ext_def example_world_def example_quake_def
          example_doom_def system_config_path_def game_config_path_def
          runner_config_path_def path_join_def path_exists_def locate_def walk_def)
  from remove_config_deletes_only_file_of_game_path
         [of example_ext example_world example_quake example_doom]
  obtain wq where
    q: "remove_config example_ext example_world example_quake = Inr wq" and
    gone: "\<not> path_exists example_ext wq (game_config_path example_ext example_quake)" and
    logged: "log_records wq = log_records example_world @
        [if path_exists example_ext example_world (game_config_path example_ext example_quake)
         then Debug_removed_config (game_config_path example_ext example_quake)
         else Debug_no_config_file (game_config_path example_ext example_quake)]" and
    others: "plain_id (game_config_id example_quake) \<longrightarrow>
        (\<forall>sp. system_config_path example_ext example_doom = Some sp \<longrightarrow>
           files wq (locate example_ext sp) = files example_world (locate example_ext sp)) \<and>
        (\<forall>gp. game_config_path example_ext example_doom = Some gp \<and>
              plain_id (game_config_id example_doom) \<and>
              game_config_id example_doom \<noteq> game_config_id example_quake \<longrightarrow>
           files wq (locate example_ext gp) = files example_world (locate example_ext gp)) \<and>
        (\<forall>rp. runner_config_path example_ext example_doom = Some rp \<and>
              plain_id (runner_slug example_doom) \<and>
              locate example_ext (RUNNERS_CONFIG_DIR example_ext)
                \<noteq> locate example_ext (path_join (CONFIG_DIR example_ext) ''games'') \<longrightarrow>
           files wq (locate example_ext rp) = files example_world (locate example_ext rp))"
    by (elim exE conjE)
  note others' = others [THEN mp, OF h(1)]
  note system = others' [THEN conjunct1, rule_format, OF h(6)]
  note game = others' [THEN conjunct2, THEN conjunct1, rule_format,
                       OF conjI [OF h(7) conjI [OF h(2) h(4)]]]
  note runner = others' [THEN conjunct2, THEN conjunct2, rule_format,
                         OF conjI [OF h(8) conjI [OF h(3) h(5)]]]
  from remove_config_deletes_only_file_of_game_path
         [of example_ext example_world example_doom example_quake]
  obtain wd where
    d: "remove_config example_ext example_world example_doom = Inr wd" and
    unchanged: "\<not> path_exists example_ext example_world (game_config_path example_ext example_doom)
       \<longrightarrow> files wd = files example_world" and
    logged': "log_records wd = log_records example_world @
        [if path_exists example_ext example_world (game_config_path example_ext example_doom)
         then Debug_removed_config (game_config_path example_ext example_doom)
         else Debug_no_config_file (game_config_path example_ext example_doom)]"
    by (elim exE conjE)
  have Q: "\<exists>w'. remove_config example_ext example_world example_quake = Inr w' \<and>
      \<not> path_exists example_ext w' (game_config_path example_ext example_quake) \<and>
      files w' (locate example_ext ''/cfg/system.yml'')
        = files example_world (locate example_ext ''/cfg/system.yml'') \<and>
      files w' (locate example_ext ''/cfg/games/doom-2.yml'')
        = files example_world (locate example_ext ''/cfg/games/doom-2.yml'') \<and>
      files w' (locate example_ext ''/cfg/runners/wine.yml'')
        = files example_world (locate example_ext ''/cfg/runners/wine.yml'') \<and>
      log_records w' = [Debug_removed_config (Some ''/cfg/games/quake-1.yml'')]"
    using q gone system game runner logged h(9,10,12) by simp
  have D: "\<exists>w'. remove_config example_ext example_world example_doom = Inr w' \<and>
      files w' = files example_world \<and>
      log_records w' = [Debug_no_config_file (Some ''/cfg/games/doom-2.yml'')]"
    using d unchanged logged' h(7,11,12) by simp
  show ?thesis
    using h Q D by simp
qed

subsection \<open>Defaults whose computation fails\<close>

text \<open>
  C9. \<^verbatim>\<open>get_defaults\<close> is total: it returns a mapping for every level and every provider.
  For each option of the option dictionary the returned mapping holds the literal
  default, or the value its default computation returns; an option with no default, or
  whose default computation raises, is absent, and in the latter case the exception is
  logged under the option's name.
\<close>

theorem get_defaults_omits_failing_default:
  assumes "(option, params) \<in> set (options_as_dict x self options_type)"
  shows "fmlookup (fst (get_defaults x self options_type)) option =
           (case opt_default params of
              None \<Rightarrow> None
            | Some (Literal v) \<Rightarrow> Some v
            | Some (Callable f) \<Rightarrow> (case f () of Inl ex \<Rightarrow> None | Inr v \<Rightarrow> Some v))
         \<and> (\<forall>f ex. opt_default params = Some (Callable f) \<and> f () = Inl ex \<longrightarrow>
               Exception_default option ex \<in> set (snd (get_defaults x self options_type)))"
proof -
  have "map_of (options_as_dict x self options_type) option = Some params"
    using assms distinct_options_as_dict by simp
  then show ?thesis
    using assms
    by (auto simp: get_defaults_def get_defaults_loop_lookup [OF distinct_options_as_dict]
             intro: get_defaults_loop_logged split: option.splits dflt.splits sum.splits)
qed

theorem get_defaults_omits_failing_default_witness:
  "(''locale'', \<lparr>opt_option = ''locale'',
                 opt_default = Some (Callable (\<lambda>_. Inl (OtherError ''no locale'')))\<rparr>)
     \<in> set (options_as_dict example_ext example_quake SYSTEM) \<and>
   fmlookup (fst (get_defaults example_ext example_quake SYSTEM)) ''locale'' = None \<and>
   Exception_default ''locale'' (OtherError ''no locale'')
     \<in> set (snd (get_defaults example_ext example_quake SYSTEM))"
proof -
  have m: "(''locale'', \<lparr>opt_option = ''locale'',
                 opt_default = Some (Callable (\<lambda>_. Inl (OtherError ''no locale'')))\<rparr>)
     \<in> set (options_as_dict example_ext example_quake SYSTEM)"
    by (simp add: options_as_dict_def example_ext_def example_quake_def
          example_game_without_id_def example_system_options_def)
  show ?thesis
    using m get_defaults_omits_failing_default [OF m] by simp
qed

subsection \<open>Sections inserted by the cascade\<close>

text \<open>
  C10. When \<^verbatim>\<open>initialize_config\<close> returns, every section that \<^verbatim>\<open>update_cascaded_config\<close>
  consults is a key of its raw layer with a value other than \<^verbatim>\<open>None\<close>; it holds an empty
  mapping if it was absent (or \<^verbatim>\<open>None\<close>) in the loaded layer, and in the raw layer of the
  current level it holds the loaded value otherwise. \<^verbatim>\<open>raw_config\<close> is the raw layer of the
  current level and the shortcuts \<^verbatim>\<open>raw_system_config\<close>, \<^verbatim>\<open>raw_runner_config\<close>,
  \<^verbatim>\<open>raw_game_config\<close> are its sections; at System level, and at the other levels when a
  runner identifier is set, none of them is \<^verbatim>\<open>None\<close>.
\<close>

theorem initialize_config_inserts_sections:
  assumes "initialize_config x w self = Inr (w', self')"
  shows "(\<forall>t k. consulted self t k \<longrightarrow>
            (\<exists>v. fmlookup (level_dict self' t) k = Some v \<and> v \<noteq> VNone) \<and>
            (dict_get (level_dict (loaded x w self) t) k = VNone \<longrightarrow>
               fmlookup (level_dict self' t) k = Some (VDict fmempty))) \<and>
         (\<forall>k. consulted self (level self) k \<and>
              dict_get (level_dict (loaded x w self) (level self)) k \<noteq> VNone \<longrightarrow>
            fmlookup (level_dict self' (level self)) k =
              Some (dict_get (level_dict (loaded x w self) (level self)) k)) \<and>
         raw_config self' = level_dict self' (level self) \<and>
         fmlookup (raw_config self') ''system'' = Some (raw_system_config self') \<and>
         (level self \<noteq> SYSTEM \<longrightarrow>
            (\<exists>slug. runner_slug self = Some slug \<and>
               fmlookup (raw_config self') slug = Some (raw_runner_config self'))) \<and>
         (level self = GAME \<longrightarrow>
            fmlookup (raw_config self') ''game'' = Some (raw_game_config self')) \<and>
         (level self = SYSTEM \<or> truthy_id (runner_slug self) \<longrightarrow>
            raw_system_config self' \<noteq> VNone \<and>
            (level self \<noteq> SYSTEM \<longrightarrow> raw_runner_config self' \<noteq> VNone) \<and>
            (level self = GAME \<longrightarrow> raw_game_config self' \<noteq> VNone))"
proof -
  from assms obtain s1 where
    u: "update_cascaded_config x w (loaded x w self) = Inr (w', s1)" and
    r: "update_raw_config s1 = Inr self'"
    by (rule initialize_config_split)
  note f = update_cascaded_config_frame [OF u]
  note i = initialize_config_frame [OF assms]
  from update_raw_config_Inr(1) [OF r] obtain a b c where
    s: "self' = s1\<lparr>raw_system_config := a, raw_runner_config := b, raw_game_config := c,
                    raw_config := level_dict s1 (level s1)\<rparr>" by blast
  have l: "level_dict self' t = level_dict s1 t" for t by (subst s) (cases t; simp)
  have rc: "raw_config self' = level_dict s1 (level self)"
    using i(5) i(1) l by simp
  have cons: "consulted (loaded x w self) t k = consulted self t k" for t k
    by (cases t) simp_all
  have A: "fmlookup (level_dict self' t) k =
              Some (if dict_get (level_dict (loaded x w self) t) k = VNone then VDict fmempty
                    else dict_get (level_dict (loaded x w self) t) k)"
    if "consulted self t k" for t k
    using cascade_inserts_sections_aux [OF u, of t k] that cons l by simp
  have B: "fmlookup (raw_config self') ''system'' = Some (raw_system_config self')"
    using update_raw_config_Inr(2) [OF r] f(1) rc by simp
  have C: "\<exists>slug. runner_slug self = Some slug \<and>
               fmlookup (raw_config self') slug = Some (raw_runner_config self')"
    if "level self \<noteq> SYSTEM"
    using update_raw_config_Inr(3) [of s1 self'] r that f(1,2) rc by simp
  have D: "fmlookup (raw_config self') ''game'' = Some (raw_game_config self')"
    if "level self = GAME"
    using update_raw_config_Inr(4) [of s1 self'] r that f(1) rc by simp
  have E: "raw_system_config self' \<noteq> VNone \<and>
            (level self \<noteq> SYSTEM \<longrightarrow> raw_runner_config self' \<noteq> VNone) \<and>
            (level self = GAME \<longrightarrow> raw_game_config self' \<noteq> VNone)"
    if c: "level self = SYSTEM \<or> truthy_id (runner_slug self)"
  proof (intro conjI impI)
    have "consulted self (level self) ''system''"
      using c by (cases "level self") auto
    from A [OF this] B show "raw_system_config self' \<noteq> VNone"
      using rc l by (auto split: if_splits)
  next
    assume n: "level self \<noteq> SYSTEM"
    from C [OF n] obtain slug where sl: "runner_slug self = Some slug"
      "fmlookup (raw_config self') slug = Some (raw_runner_config self')" by blast
    have "consulted self (level self) slug"
      using c n sl(1) by (cases "level self") auto
    from A [OF this] sl(2) show "raw_runner_config self' \<noteq> VNone"
      using rc l by (auto split: if_splits)
  next
    assume g: "level self = GAME"
    have "consulted self (level self) ''game''"
      using c g by auto
    from A [OF this] D [OF g] show "raw_game_config self' \<noteq> VNone"
      using rc l by (auto split: if_splits)
  qed
  have F: "raw_config self' = level_dict self' (level self)"
    using rc l by simp
  have A': "\<forall>t k. consulted self t k \<longrightarrow>
            (\<exists>v. fmlookup (level_dict self' t) k = Some v \<and> v \<noteq> VNone) \<and>
            (dict_get (level_dict (loaded x w self) t) k = VNone \<longrightarrow>
               fmlookup (level_dict self' t) k = Some (VDict fmempty))"
  proof (intro allI impI)
    fix t k assume "consulted self t k"
    from A [OF this]
    show "(\<exists>v. fmlookup (level_dict self' t) k = Some v \<and> v \<noteq> VNone) \<and>
            (dict_get (level_dict (loaded x w self) t) k = VNone \<longrightarrow>
               fmlookup (level_dict self' t) k = Some (VDict fmempty))"
      by (simp del: loaded_fields)
  qed
  have A'': "\<forall>k. consulted self (level self) k \<and>
              dict_get (level_dict (loaded x w self) (level self)) k \<noteq> VNone \<longrightarrow>
            fmlookup (level_dict self' (level self)) k =
              Some (dict_get (level_dict (loaded x w self) (level self)) k)"
  proof (intro allI impI)
    fix k
    assume c: "consulted self (level self) k \<and>
              dict_get (level_dict (loaded x w self) (level self)) k \<noteq> VNone"
    then have "consulted self (level self) k" by simp
    from A [OF this] c
    show "fmlookup (level_dict self' (level self)) k =
              Some (dict_get (level_dict (loaded x w self) (level self)) k)"
      by (simp del: loaded_fields)
  qed
  from C have C': "level self \<noteq> SYSTEM \<longrightarrow>
            (\<exists>slug. runner_slug self = Some slug \<and>
               fmlookup (raw_config self') slug = Some (raw_runner_config self'))"
    by (intro impI)
  from D have D': "level self = GAME \<longrightarrow>
            fmlookup (raw_config self') ''game'' = Some (raw_game_config self')"
    by (intro impI)
  from E have E': "level self = SYSTEM \<or> truthy_id (runner_slug self) \<longrightarrow>
            raw_system_config self' \<noteq> VNone \<and>
            (level self \<noteq> SYSTEM \<longrightarrow> raw_runner_config self' \<noteq> VNone) \<and>
            (level self = GAME \<longrightarrow> raw_game_config self' \<noteq> VNone)"
    by (intro impI)
  from A' A'' F B C' D' E' show ?thesis
    by (intro conjI)
qed

theorem initialize_config_inserts_sections_witness:
  "\<exists>w' self'.
     initialize_config example_ext empty_world blank_wine_game = Inr (w', self') \<and>
     consulted blank_wine_game GAME ''wine'' \<and>
     consulted blank_wine_game RUNNER ''system'' \<and>
     level blank_wine_game \<noteq> SYSTEM \<and> level blank_wine_game = GAME \<and>
     truthy_id (runner_slug blank_wine_game) \<and>
     fmlookup (game_level self') ''wine'' = Some (VDict fmempty) \<and>
     fmlookup (runner_level self') ''system'' = Some (VDict fmempty) \<and>
     fmlookup (raw_config self') ''game'' = Some (raw_game_config self') \<and>
     raw_game_config self' \<noteq> VNone \<and> raw_runner_config self' \<noteq> VNone \<and>
     raw_system_config self' \<noteq> VNone"
proof -
  have "\<exists>r. initialize_config example_ext empty_world blank_wine_game = Inr r"
    by (simp add: blank_wine_game_def example_defs eval_defs)
  then obtain w' self' where
    e: "initialize_config example_ext empty_world blank_wine_game = Inr (w', self')" by auto
  have c: "consulted blank_wine_game GAME ''wine''" "consulted blank_wine_game RUNNER ''system''"
    "level blank_wine_game \<noteq> SYSTEM" "level blank_wine_game = GAME"
    "truthy_id (runner_slug blank_wine_game)"
    by (simp_all add: blank_wine_game_def)
  have d: "dict_get (level_dict (loaded example_ext empty_world blank_wine_game) GAME) ''wine'' = VNone"
    "dict_get (level_dict (loaded example_ext empty_world blank_wine_game) RUNNER) ''system'' = VNone"
    by (simp_all add: blank_wine_game_def example_defs dict_get_def read_yaml_from_file_def
          game_config_path_def runner_config_path_def loaded_def)
  note t = initialize_config_inserts_sections [OF e]
  from t have a: "\<forall>t k. consulted blank_wine_game t k \<longrightarrow>
            (\<exists>v. fmlookup (level_dict self' t) k = Some v \<and> v \<noteq> VNone) \<and>
            (dict_get (level_dict (loaded example_ext empty_world blank_wine_game) t) k = VNone \<longrightarrow>
               fmlookup (level_dict self' t) k = Some (VDict fmempty))"
    by (rule conjunct1)
  have g: "fmlookup (game_level self') ''wine'' = Some (VDict fmempty)"
    using a [rule_format, OF c(1)] d(1) by (simp del: loaded_fields)
  have r: "fmlookup (runner_level self') ''system'' = Some (VDict fmempty)"
    using a [rule_format, OF c(2)] d(2) by (simp del: loaded_fields)
  show ?thesis
    using e c g r t by auto
qed

end
